theory Spec2Isabelle
  imports Main
begin

section \<open>The operating system as the code sees it\<close>

text \<open>
  The Go code talks to the file system through \<^verbatim>\<open>os.ReadFile\<close>, \<^verbatim>\<open>os.WriteFile\<close>,
  \<^verbatim>\<open>os.Stat\<close>, \<^verbatim>\<open>os.ReadDir\<close>, \<^verbatim>\<open>os.Create\<close>, \<^verbatim>\<open>os.OpenFile\<close>, \<^verbatim>\<open>os.Remove\<close> and the
  methods of \<^verbatim>\<open>*os.File\<close>. A \<open>world\<close> holds what these calls can observe: the nodes
  at each path, a table of refusals (\<open>fault w p op = Some e\<close>: the system refuses
  operation \<open>op\<close> on path \<open>p\<close> with \<open>e\<close>, whatever is stored there), the environment
  variables, and the log written through \<^verbatim>\<open>log.Warn\<close>, \<^verbatim>\<open>log.Info\<close>, \<^verbatim>\<open>log.Debug\<close>.
\<close>

type_synonym bytes = string

datatype os_error =
  ErrNotExist | ErrInvalid | ErrPermission | ErrIsDir | ErrNotDir | ErrNotEmpty | ErrIO

datatype json_error = SyntaxError | UnmarshalTypeError | UnsupportedValue

text \<open>An error value: one of the system, one of the JSON library, \<^verbatim>\<open>errors.New\<close>,
  \<^verbatim>\<open>fmt.Errorf\<close> with its format and arguments, or a panic.\<close>

datatype error =
  OsError os_error
  | JsonError json_error
  | ErrorNew string
  | Errorf string "fmt_arg list"
  | Panic string
and fmt_arg = FStr string | FErr error

datatype node = File bytes | Dir "string list"

datatype os_op = OpStat | OpRead | OpReadDir | OpOpen | OpWrite | OpClose | OpRemove

datatype open_flag = O_WRONLY | O_RDWR | O_APPEND | O_CREATE | O_TRUNC

datatype log_level = Debug | Info | Warn

text \<open>The mock scan result of \<^verbatim>\<open>part_000\<close> (lines 250-253); \<open>None\<close> is the nil interface.\<close>

record MockScanResult =
  Violations :: string
  Vulnerabilities :: string

type_synonym ScanResult = "MockScanResult option"

record world =
  files :: "string \<rightharpoonup> node"
  fault :: "string \<Rightarrow> os_op \<Rightarrow> os_error option"
  environ :: "string \<Rightarrow> string"
  logs :: "(log_level \<times> fmt_arg list) list"
  ScanResultsMapping :: "string \<rightharpoonup> ScanResult"

definition log_write :: "log_level \<Rightarrow> fmt_arg list \<Rightarrow> world \<Rightarrow> world" where
  "log_write lvl args w = w\<lparr>logs := logs w @ [(lvl, args)]\<rparr>"

definition os_Getenv :: "string \<Rightarrow> world \<Rightarrow> string" where
  "os_Getenv name w = environ w name"

text \<open>\<^verbatim>\<open>path.Join\<close> and \<^verbatim>\<open>filepath.Join\<close>: the non-empty elements joined by a slash. The
  final \<^verbatim>\<open>Clean\<close> of the library is left out; nothing below depends on the spelling of
  a path.\<close>

fun join_elems :: "string list \<Rightarrow> string" where
  "join_elems [] = []"
| "join_elems [x] = x"
| "join_elems (x # y # ys) = x @ ''/'' @ join_elems (y # ys)"

definition path_Join :: "string list \<Rightarrow> string" where
  "path_Join elems = join_elems (filter (\<lambda>e. e \<noteq> []) elems)"

definition os_IsNotExist :: "os_error option \<Rightarrow> bool" where
  "os_IsNotExist err = (err = Some ErrNotExist)"

definition os_Stat :: "string \<Rightarrow> world \<Rightarrow> os_error option" where
  "os_Stat p w =
     (case fault w p OpStat of
        Some e \<Rightarrow> Some e
      | None \<Rightarrow> (case files w p of None \<Rightarrow> Some ErrNotExist | Some n \<Rightarrow> None))"

definition os_ReadFile :: "string \<Rightarrow> world \<Rightarrow> bytes \<times> os_error option" where
  "os_ReadFile p w =
     (case fault w p OpRead of
        Some e \<Rightarrow> ([], Some e)
      | None \<Rightarrow>
          (case files w p of
             None \<Rightarrow> ([], Some ErrNotExist)
           | Some (File b) \<Rightarrow> (b, None)
           | Some (Dir es) \<Rightarrow> ([], Some ErrIsDir)))"

definition os_ReadDir :: "string \<Rightarrow> world \<Rightarrow> string list \<times> os_error option" where
  "os_ReadDir p w =
     (case fault w p OpReadDir of
        Some e \<Rightarrow> ([], Some e)
      | None \<Rightarrow>
          (case files w p of
             None \<Rightarrow> ([], Some ErrNotExist)
           | Some (File b) \<Rightarrow> ([], Some ErrNotDir)
           | Some (Dir es) \<Rightarrow> (es, None)))"

text \<open>An open file is named by its path; \<open>None\<close> is the nil \<^verbatim>\<open>*os.File\<close> that a failed
  open returns. Every handle of this code is opened for writing on a new, truncated or
  append-mode file, so a write lands at the end of the file.\<close>

type_synonym handle = "string option"

definition os_OpenFile ::
  "string \<Rightarrow> open_flag list \<Rightarrow> world \<Rightarrow> (handle \<times> os_error option) \<times> world" where
  "os_OpenFile p flags w =
     (case fault w p OpOpen of
        Some e \<Rightarrow> ((None, Some e), w)
      | None \<Rightarrow>
          (case files w p of
             None \<Rightarrow>
               (if O_CREATE \<in> set flags
                then ((Some p, None), w\<lparr>files := (files w)(p \<mapsto> File [])\<rparr>)
                else ((None, Some ErrNotExist), w))
           | Some (File b) \<Rightarrow>
               (if O_TRUNC \<in> set flags
                then ((Some p, None), w\<lparr>files := (files w)(p \<mapsto> File [])\<rparr>)
                else ((Some p, None), w))
           | Some (Dir es) \<Rightarrow> ((None, Some ErrIsDir), w)))"

definition os_Create :: "string \<Rightarrow> world \<Rightarrow> (handle \<times> os_error option) \<times> world" where
  "os_Create p w = os_OpenFile p [O_RDWR, O_CREATE, O_TRUNC] w"

definition file_Write :: "handle \<Rightarrow> bytes \<Rightarrow> world \<Rightarrow> os_error option \<times> world" where
  "file_Write h b w =
     (case h of
        None \<Rightarrow> (Some ErrInvalid, w)
      | Some p \<Rightarrow>
          (case fault w p OpWrite of
             Some e \<Rightarrow> (Some e, w)
           | None \<Rightarrow>
               (case files w p of
                  Some (File old) \<Rightarrow> (None, w\<lparr>files := (files w)(p \<mapsto> File (old @ b))\<rparr>)
                | Some (Dir es) \<Rightarrow> (Some ErrInvalid, w)
                | None \<Rightarrow> (Some ErrInvalid, w))))"

definition file_Close :: "handle \<Rightarrow> world \<Rightarrow> os_error option" where
  "file_Close h w = (case h of None \<Rightarrow> Some ErrInvalid | Some p \<Rightarrow> fault w p OpClose)"

text \<open>\<^verbatim>\<open>os.WriteFile\<close> as the Go library writes it: open with
  \<^verbatim>\<open>O_WRONLY|O_CREATE|O_TRUNC\<close>, write, close; a close error is reported only when the
  write had none.\<close>

definition os_WriteFile :: "string \<Rightarrow> bytes \<Rightarrow> world \<Rightarrow> os_error option \<times> world" where
  "os_WriteFile p b w =
     (case os_OpenFile p [O_WRONLY, O_CREATE, O_TRUNC] w of
        ((f, Some e), w1) \<Rightarrow> (Some e, w1)
      | ((f, None), w1) \<Rightarrow>
          (case file_Write f b w1 of
             (err, w2) \<Rightarrow>
               (case file_Close f w2 of
                  Some err1 \<Rightarrow> (if err = None then (Some err1, w2) else (err, w2))
                | None \<Rightarrow> (err, w2))))"

definition os_Remove :: "string \<Rightarrow> world \<Rightarrow> os_error option \<times> world" where
  "os_Remove p w =
     (case fault w p OpRemove of
        Some e \<Rightarrow> (Some e, w)
      | None \<Rightarrow>
          (case files w p of
             None \<Rightarrow> (Some ErrNotExist, w)
           | Some (Dir (e # es)) \<Rightarrow> (Some ErrNotEmpty, w)
           | Some n \<Rightarrow> (None, w\<lparr>files := (files w)(p := None)\<rparr>)))"

text \<open>\<^verbatim>\<open>fileutils.IsFileExists(path, true)\<close> of the client library: a stat; a missing path
  is "no" without error, a directory is "no".\<close>

definition IsFileExists :: "string \<Rightarrow> world \<Rightarrow> bool \<times> os_error option" where
  "IsFileExists p w =
     (case os_Stat p w of
        Some e \<Rightarrow> (if e = ErrNotExist then (False, None) else (False, Some e))
      | None \<Rightarrow> (case files w p of Some (File b) \<Rightarrow> (True, None) | _ \<Rightarrow> (False, None)))"

section \<open>Results and Go slices\<close>

record Result =
  SourcePath :: string
  TargetPath :: string
  RtUrl :: string

text \<open>A Go slice is nil (\<open>None\<close>) or holds a list, possibly empty: the two are encoded
  differently by \<^verbatim>\<open>encoding/json\<close> (\<^verbatim>\<open>null\<close> and \<^verbatim>\<open>[]\<close>).\<close>

type_synonym 'a slice = "'a list option"

record ResultsWrapper =
  Results :: "Result slice"

definition elems :: "'a slice \<Rightarrow> 'a list" where
  "elems s = (case s of None \<Rightarrow> [] | Some xs \<Rightarrow> xs)"

text \<open>The builtin \<^verbatim>\<open>append(s, t...)\<close>: appending nothing to nil gives nil.\<close>

definition go_append :: "'a slice \<Rightarrow> 'a slice \<Rightarrow> 'a slice" where
  "go_append s t =
     (case s of
        None \<Rightarrow> (if elems t = [] then None else Some (elems t))
      | Some xs \<Rightarrow> Some (xs @ elems t))"

text \<open>\<^verbatim>\<open>encoding/json\<close> is the Go standard library, not code of this repository: the
  three entry points the code calls are parameters of the model. \<open>Unmarshal cdc b\<close> is
  the outcome of \<^verbatim>\<open>json.Unmarshal(b, &v)\<close> on a zero \<open>v\<close>: the value left in \<open>v\<close> and the
  error; \<open>MarshalIndent cdc v\<close> is \<^verbatim>\<open>json.MarshalIndent(v, "", "  ")\<close> and \<open>Marshal cdc v\<close> is
  \<^verbatim>\<open>json.Marshal(v)\<close>. \<open>representable cdc r\<close> names the results the encoding keeps
  unchanged (Go strings that are valid UTF-8).\<close>

record codec =
  Unmarshal :: "bytes \<Rightarrow> ResultsWrapper \<times> json_error option"
  MarshalIndent :: "ResultsWrapper \<Rightarrow> json_error + bytes"
  Marshal :: "ResultsWrapper \<Rightarrow> json_error + bytes"
  representable :: "Result \<Rightarrow> bool"

section \<open>PathTree\<close>

text \<open>Modelled from the spec: the tree type the store fills
  (\<^verbatim>\<open>artifactoryUtils.NewFileTree\<close>, \<^verbatim>\<open>AddFile\<close>, \<^verbatim>\<open>String\<close>) is not among the source files.
  A node is one path segment and owns its children, at most one per segment name, kept in
  the order they were inserted; a node without children is a leaf.\<close>

datatype PathTreeNode = PathTreeNode (segment: string) (children: "PathTreeNode list")

type_synonym PathTree = "PathTreeNode list"

text \<open>Modelled from the spec: the empty tree (a root without children).\<close>

definition NewFileTree :: PathTree where
  "NewFileTree = []"

text \<open>Modelled from the spec: "splits the path into ordered segments by its separator".\<close>

fun split_path :: "string \<Rightarrow> string list" where
  "split_path [] = [[]]"
| "split_path (c # cs) =
     (if c = CHR ''/'' then [] # split_path cs
      else (case split_path cs of [] \<Rightarrow> [[c]] | seg # segs \<Rightarrow> (c # seg) # segs))"

text \<open>Modelled from the spec: "walks/creates nodes segment by segment starting at the
  root; never overwrites an existing segment's identity": an existing child of that name
  is descended into where it stands, a missing one is created after its siblings.\<close>

fun addSegments :: "string list \<Rightarrow> PathTree \<Rightarrow> PathTree" where
  "addSegments [] ts = ts"
| "addSegments (s # ss) [] = [PathTreeNode s (addSegments ss [])]"
| "addSegments (s # ss) (PathTreeNode k ks # ts) =
     (if k = s then PathTreeNode k (addSegments ss ks) # ts
      else PathTreeNode k ks # addSegments (s # ss) ts)"

text \<open>Modelled from the spec: \<^verbatim>\<open>addPath(path)\<close>.\<close>

definition AddFile :: "string \<Rightarrow> PathTree \<Rightarrow> PathTree" where
  "AddFile p t = addSegments (split_path p) t"

text \<open>Modelled from the spec: the lines of \<^verbatim>\<open>render()\<close>, "indentation-based text
  representation, one line per node, depth-first, children visited in the order
  inserted"; two spaces per level.\<close>

fun renderNodes :: "nat \<Rightarrow> PathTree \<Rightarrow> string" where
  "renderNodes d [] = []"
| "renderNodes d (PathTreeNode k ks # ts) =
     replicate (2 * d) CHR '' '' @ k @ [CHR 0x0A] @ renderNodes (Suc d) ks @ renderNodes d ts"

text \<open>Modelled from the spec: \<^verbatim>\<open>render()\<close> of a whole tree starts at depth 0; "empty
  tree renders as an empty string".\<close>

definition tree_String :: "PathTree \<Rightarrow> string" where
  "tree_String t = renderNodes 0 t"

section \<open>The result store (\<^verbatim>\<open>utils/cliutils/githubSummary.go\<close>, lines 1-227)\<close>

text \<open>The source file carries two revisions of the store, one after the other; the
  functions below are those of the first (lines 1-227), and the line numbers are its.

  \<^verbatim>\<open>utils.Result\<close> of the core library, as far as \<^verbatim>\<open>AppendResult\<close> looks at it: its
  reader, which may be nil, and the reader's list of fragment files.\<close>

record ContentReader =
  filesPaths :: "string list"

record utils_Result =
  reader :: "ContentReader option"

record GitHubActionSummary =
  dirPath :: string
  rawDataFile :: string
  uploadTree :: "PathTree option"

definition homeDir :: string where
  "homeDir = ''/Users/runner/.jfrog/jfrog-github-summary''"

definition newGithubActionSummary :: GitHubActionSummary where
  "newGithubActionSummary =
     \<lparr>dirPath = homeDir, rawDataFile = ''data.json'', uploadTree = None\<rparr>"

definition getDataFilePath :: "GitHubActionSummary \<Rightarrow> string" where
  "getDataFilePath gh = path_Join [dirPath gh, rawDataFile gh]"

text \<open>\<^verbatim>\<open>loadAndMarshalResultsFile\<close> (lines 121-137). The results are named, so the bare
  \<^verbatim>\<open>return\<close> of line 130 returns the \<open>err\<close> that \<^verbatim>\<open>os.ReadFile\<close> assigned.\<close>

definition loadAndMarshalResultsFile ::
  "codec \<Rightarrow> GitHubActionSummary \<Rightarrow> world
     \<Rightarrow> (ResultsWrapper \<times> bytes \<times> error option) \<times> world" where
  "loadAndMarshalResultsFile cdc gh w =
     (case os_ReadFile (getDataFilePath gh) w of
        (targetBytes, err) \<Rightarrow>
          if err \<noteq> None \<and> \<not> os_IsNotExist err
          then ((\<lparr>Results = None\<rparr>, [], map_option OsError err),
                log_write Warn [FStr ''data file not found '', FStr (getDataFilePath gh)] w)
          else if length targetBytes \<le> 0
          then ((\<lparr>Results = None\<rparr>, targetBytes, map_option OsError err),
                log_write Warn [FStr ''empty data file: '', FStr (getDataFilePath gh)] w)
          else (case Unmarshal cdc targetBytes of
                  (targetWrapper, jerr) \<Rightarrow>
                    ((targetWrapper, targetBytes, map_option JsonError jerr), w)))"

text \<open>The loop of \<^verbatim>\<open>AppendResult\<close> over the fragment files (lines 87-100).\<close>

fun readResultFiles ::
  "codec \<Rightarrow> string list \<Rightarrow> Result slice \<Rightarrow> world \<Rightarrow> error + Result slice" where
  "readResultFiles cdc [] readContent w = Inr readContent"
| "readResultFiles cdc (file # rest) readContent w =
     (case os_ReadFile file w of
        (sourceBytes, Some e) \<Rightarrow> Inl (OsError e)
      | (sourceBytes, None) \<Rightarrow>
          (case Unmarshal cdc sourceBytes of
             (sourceWrapper, Some je) \<Rightarrow> Inl (JsonError je)
           | (sourceWrapper, None) \<Rightarrow>
               readResultFiles cdc rest (go_append readContent (Results sourceWrapper)) w))"

text \<open>The files read: none when the result or its reader is nil (line 86).\<close>

definition resultFilesPaths :: "utils_Result option \<Rightarrow> string list" where
  "resultFilesPaths result =
     (case result of
        None \<Rightarrow> []
      | Some r \<Rightarrow> (case reader r of None \<Rightarrow> [] | Some rd \<Rightarrow> filesPaths rd))"

text \<open>\<^verbatim>\<open>AppendResult\<close> (lines 83-119). The \<open>err\<close> of line 103 is assigned again at line
  108 before anything reads it.\<close>

definition AppendResult ::
  "codec \<Rightarrow> GitHubActionSummary \<Rightarrow> utils_Result option \<Rightarrow> world \<Rightarrow> error option \<times> world" where
  "AppendResult cdc gh result w =
     (case readResultFiles cdc (resultFilesPaths result) None w of
        Inl e \<Rightarrow> (Some e, w)
      | Inr readContent \<Rightarrow>
          (case loadAndMarshalResultsFile cdc gh w of
             ((targetWrapper, targetBytes, err), w1) \<Rightarrow>
               (case MarshalIndent cdc
                       (targetWrapper\<lparr>Results := go_append (Results targetWrapper) readContent\<rparr>) of
                  Inl je \<Rightarrow> (Some (JsonError je), w1)
                | Inr targetBytes' \<Rightarrow>
                    (case os_WriteFile (getDataFilePath gh) targetBytes' w1 of
                       (Some e, w2) \<Rightarrow> (Some (OsError e), w2)
                     | (None, w2) \<Rightarrow> (None, w2)))))"

text \<open>\<^verbatim>\<open>generateUploadedFilesTree\<close> (lines 63-73): the tree of the target paths of the
  stored results, in their order.\<close>

definition generateUploadedFilesTree ::
  "codec \<Rightarrow> GitHubActionSummary \<Rightarrow> world
     \<Rightarrow> (error option \<times> GitHubActionSummary) \<times> world" where
  "generateUploadedFilesTree cdc gh w =
     (case loadAndMarshalResultsFile cdc gh w of
        ((object, targetBytes, Some e), w1) \<Rightarrow> ((Some e, gh), w1)
      | ((object, targetBytes, None), w1) \<Rightarrow>
          ((None,
            gh\<lparr>uploadTree :=
                 Some (foldl (\<lambda>t b. AddFile (TargetPath b) t) NewFileTree
                         (elems (Results object)))\<rparr>),
           w1))"

text \<open>\<^verbatim>\<open>defer func() { err = file.Close() }()\<close>: when the function returns, the named
  result is replaced by what \<^verbatim>\<open>Close\<close> returns. A panic is not a return: it passes
  through.\<close>

definition deferred_Close :: "handle \<Rightarrow> error option \<times> world \<Rightarrow> error option \<times> world" where
  "deferred_Close file r =
     (case r of
        (Some (Panic m), w) \<Rightarrow> (Some (Panic m), w)
      | (err, w) \<Rightarrow> (map_option OsError (file_Close file w), w))"

text \<open>The frog of the title line, as its four UTF-8 bytes.\<close>

definition frog :: string where
  "frog = [CHR 0xF0, CHR 0x9F, CHR 0x90, CHR 0xB8]"

text \<open>\<^verbatim>\<open>generateMarkdown\<close> (lines 139-158). The three \<^verbatim>\<open>WriteString\<close> results are assigned
  to \<open>err\<close> one over the other; the method call on a nil tree is a nil dereference.\<close>

definition generateMarkdown :: "GitHubActionSummary \<Rightarrow> world \<Rightarrow> error option \<times> world" where
  "generateMarkdown gh w =
     (let tempMarkdownPath = path_Join [dirPath gh, ''github-action-summary.md''];
          w1 = log_write Info [FStr ''removing previous file: '', FStr tempMarkdownPath] w;
          w2 = snd (os_Remove tempMarkdownPath w1);
          w3 = log_write Info [FStr ''writing markdown to: '', FStr tempMarkdownPath] w2
      in case os_OpenFile tempMarkdownPath [O_APPEND, O_CREATE, O_WRONLY] w3 of
           ((file, Some e), w4) \<Rightarrow>
             deferred_Close file (Some (Errorf ''failed to open file: %w'' [FErr (OsError e)]), w4)
         | ((file, None), w4) \<Rightarrow>
             (case file_Write file
                     (''# '' @ frog @ '' JFrog CLI Github Action Summary '' @ frog @ ''\<newline>'') w4 of
                (err1, w5) \<Rightarrow>
                  (case file_Write file ''## Uploaded artifacts:\<newline>'' w5 of
                     (err2, w6) \<Rightarrow>
                       (case uploadTree gh of
                          None \<Rightarrow>
                            deferred_Close file
                              (Some (Panic ''nil pointer dereference''), w6)
                        | Some t \<Rightarrow>
                            (case file_Write file
                                    (''```\<newline>'' @ tree_String t @ ''```'') w6 of
                               (err3, w7) \<Rightarrow>
                                 deferred_Close file (map_option OsError err3, w7))))))"

text \<open>\<^verbatim>\<open>createTempFile\<close> (lines 160-182), called with a \<open>ResultsWrapper\<close> (line 213).\<close>

definition createTempFile ::
  "codec \<Rightarrow> string \<Rightarrow> ResultsWrapper \<Rightarrow> world \<Rightarrow> error option \<times> world" where
  "createTempFile cdc filePath content w =
     (case IsFileExists filePath w of
        (exists, err) \<Rightarrow>
          if err \<noteq> None \<or> exists then (map_option OsError err, w)
          else
            (case os_Create filePath w of
               ((file, Some e), w1) \<Rightarrow>
                 deferred_Close file (Some (Errorf ''failed to create file: %w'' [FErr (OsError e)]), w1)
             | ((file, None), w1) \<Rightarrow>
                 (case Marshal cdc content of
                    Inl je \<Rightarrow>
                      deferred_Close file
                        (Some (Errorf ''failed to marshal content: %w'' [FErr (JsonError je)]), w1)
                  | Inr bs \<Rightarrow>
                      (case file_Write file bs w1 of
                         (Some e, w2) \<Rightarrow>
                           deferred_Close file
                             (Some (Errorf ''failed to write content: %w'' [FErr (OsError e)]), w2)
                       | (None, w2) \<Rightarrow>
                           deferred_Close file
                             (None, log_write Info [FStr ''created file:'', FStr filePath] w2)))))"

section \<open>The command summary (\<^verbatim>\<open>src/unnamed/part_000\<close>)\<close>

type_synonym MarkdownSection = string

definition Security :: MarkdownSection where "Security = ''security''"
definition BuildInfo :: MarkdownSection where "BuildInfo = ''build-info''"
definition Upload :: MarkdownSection where "Upload = ''upload''"

definition JfrogCliSummaryDir :: string where "JfrogCliSummaryDir = ''jfrog-command-summary''"
definition MarkdownFileName :: string where "MarkdownFileName = ''markdown.md''"

definition markdownSections :: "MarkdownSection list" where
  "markdownSections = [Security, BuildInfo, Upload]"

text \<open>\<^verbatim>\<open>coreutils.SummaryOutputDirPathEnv\<close>, named in the comment of line 42.\<close>

definition SummaryOutputDirPathEnv :: string where
  "SummaryOutputDirPathEnv = ''JFROG_CLI_COMMAND_SUMMARY_OUTPUT_DIR''"

text \<open>The collaborators live in other repositories (the core, security and client
  libraries); each is a parameter that may read and change the world. A summary object
  carries its two methods. The manifest of indexed files is a Go map of maps; it is given
  as the lists of entries in the order the two \<^verbatim>\<open>range\<close> loops visit them.\<close>

datatype Index = DockerScan | BuildScan | BinariesScan | OtherIndex string

type_synonym IndexedFiles = "(Index \<times> (string \<times> string) list) list"

record CommandSummary =
  GenerateMarkdown :: "world \<Rightarrow> error option \<times> world"
  GetIndexedDataFilesPaths :: "world \<Rightarrow> (error + IndexedFiles) \<times> world"

type_synonym cli_Context = "(string \<times> string) list"

record ServerDetails =
  Url :: string

datatype ServicesManager = ServicesManager ServerDetails

record collaborators =
  CreateServerDetailsWithConfigOffer :: "cli_Context \<Rightarrow> world \<Rightarrow> (error + ServerDetails) \<times> world"
  CreateServiceManager :: "ServerDetails \<Rightarrow> world \<Rightarrow> (error + ServicesManager) \<times> world"
  GetRtMajorVersion :: "ServicesManager \<Rightarrow> world \<Rightarrow> (error + int) \<times> world"
  InitMarkdownGenerationValues :: "string \<Rightarrow> int \<Rightarrow> world \<Rightarrow> error option \<times> world"
  SecurityCommandsJobSummary :: "world \<Rightarrow> (error + CommandSummary) \<times> world"
  NewBuildInfoSummary :: "world \<Rightarrow> (error + CommandSummary) \<times> world"
  NewUploadSummary :: "world \<Rightarrow> (error + CommandSummary) \<times> world"

text \<open>\<^verbatim>\<open>ShouldGenerateSummary\<close> (lines 241-243).\<close>

definition ShouldGenerateSummary :: "world \<Rightarrow> bool" where
  "ShouldGenerateSummary w = (os_Getenv SummaryOutputDirPathEnv w \<noteq> [])"

text \<open>\<^verbatim>\<open>createPlatformDetailsByFlags\<close> (lines 212-221) and
  \<^verbatim>\<open>extractServerUrlAndVersion\<close> (lines 223-238).\<close>

definition createPlatformDetailsByFlags ::
  "collaborators \<Rightarrow> cli_Context \<Rightarrow> world \<Rightarrow> (error + ServerDetails) \<times> world" where
  "createPlatformDetailsByFlags col c w =
     (case CreateServerDetailsWithConfigOffer col c w of
        (Inl e, w1) \<Rightarrow> (Inl (Errorf ''error creating platform details: %w'' [FErr e]), w1)
      | (Inr platformDetails, w1) \<Rightarrow>
          if Url platformDetails = []
          then (Inl (ErrorNew ''platform URL is mandatory for access token creation''), w1)
          else (Inr platformDetails, w1))"

definition extractServerUrlAndVersion ::
  "collaborators \<Rightarrow> cli_Context \<Rightarrow> world \<Rightarrow> (error + string \<times> int) \<times> world" where
  "extractServerUrlAndVersion col c w =
     (case createPlatformDetailsByFlags col c w of
        (Inl e, w1) \<Rightarrow> (Inl (Errorf ''error extracting server details: %w'' [FErr e]), w1)
      | (Inr serverDetails, w1) \<Rightarrow>
          (case CreateServiceManager col serverDetails w1 of
             (Inl e, w2) \<Rightarrow> (Inl (Errorf ''error creating services manager: %w'' [FErr e]), w2)
           | (Inr servicesManager, w2) \<Rightarrow>
               (case GetRtMajorVersion col servicesManager w2 of
                  (Inl e, w3) \<Rightarrow>
                    (Inl (Errorf ''error getting Artifactory major platformMajorVersion: %w'' [FErr e]),
                     w3)
                | (Inr platformMajorVersion, w3) \<Rightarrow>
                    (Inr (Url serverDetails, platformMajorVersion), w3))))"

text \<open>\<^verbatim>\<open>generateSecurityMarkdown\<close> (lines 138-144).\<close>

definition generateSecurityMarkdown :: "collaborators \<Rightarrow> world \<Rightarrow> error option \<times> world" where
  "generateSecurityMarkdown col w =
     (case SecurityCommandsJobSummary col w of
        (Inl e, w1) \<Rightarrow> (Some (Errorf ''error generating security markdown: %w'' [FErr e]), w1)
      | (Inr securitySummary, w1) \<Rightarrow> GenerateMarkdown securitySummary w1)"

text \<open>The three methods of the mock scanner (lines 266-295): result, fallback, no error.\<close>

definition mock_BuildScan :: "string list \<Rightarrow> ScanResult \<times> ScanResult \<times> error option" where
  "mock_BuildScan filePaths =
     (Some \<lparr>Violations = ''Mock Build Scan Violations'',
            Vulnerabilities = ''Mock Build Scan Vulnerabilities''\<rparr>,
      Some \<lparr>Violations = ''not scanned'', Vulnerabilities = ''not scanned''\<rparr>, None)"

definition mock_DockerScanScan :: "string list \<Rightarrow> ScanResult \<times> ScanResult \<times> error option" where
  "mock_DockerScanScan filePaths =
     (Some \<lparr>Violations = ''Mock Docker Scan Violations'',
            Vulnerabilities = ''Mock Docker Scan Vulnerabilities''\<rparr>,
      Some \<lparr>Violations = ''not scanned'', Vulnerabilities = ''not scanned''\<rparr>, None)"

definition mock_BinaryScanScan :: "string list \<Rightarrow> ScanResult \<times> ScanResult \<times> error option" where
  "mock_BinaryScanScan filePaths =
     (Some \<lparr>Violations = ''Mock Docker Scan Violations'',
            Vulnerabilities = ''Mock Docker Scan Vulnerabilities''\<rparr>,
      Some \<lparr>Violations = ''not scanned'', Vulnerabilities = ''not scanned''\<rparr>, None)"

text \<open>\<^verbatim>\<open>processScan\<close> (lines 167-185): the switch has no default, so another index leaves
  \<open>res\<close>, \<open>fallback\<close> and \<open>err\<close> nil.\<close>

definition processScan ::
  "Index \<Rightarrow> string \<Rightarrow> string \<Rightarrow> (string \<rightharpoonup> ScanResult) \<Rightarrow> world
     \<Rightarrow> (string \<rightharpoonup> ScanResult) \<times> world" where
  "processScan index filePath scannedName myMappedResults w =
     (case (case index of
              DockerScan \<Rightarrow> mock_DockerScanScan [filePath]
            | BuildScan \<Rightarrow> mock_BuildScan [filePath]
            | BinariesScan \<Rightarrow> mock_BinaryScanScan [filePath]
            | OtherIndex n \<Rightarrow> (None, None, None)) of
        (res, fallback, err) \<Rightarrow>
          ((myMappedResults(scannedName \<mapsto> res))(''fallback'' \<mapsto> fallback),
           (case err of
              None \<Rightarrow> w
            | Some e \<Rightarrow>
                log_write Warn
                  [FStr ''Failed to generate scan result for %s: %v'', FStr scannedName, FErr e]
                  w)))"

fun processScans ::
  "Index \<Rightarrow> (string \<times> string) list \<Rightarrow> (string \<rightharpoonup> ScanResult) \<Rightarrow> world
     \<Rightarrow> (string \<rightharpoonup> ScanResult) \<times> world" where
  "processScans index [] m w = (m, w)"
| "processScans index ((scannedName, filePath) # rest) m w =
     (case processScan index filePath scannedName m w of
        (m1, w1) \<Rightarrow> processScans index rest m1 w1)"

fun processIndexedFiles ::
  "IndexedFiles \<Rightarrow> (string \<rightharpoonup> ScanResult) \<Rightarrow> world \<Rightarrow> (string \<rightharpoonup> ScanResult) \<times> world" where
  "processIndexedFiles [] m w = (m, w)"
| "processIndexedFiles ((index, keyValue) # rest) m w =
     (case processScans index keyValue m w of
        (m1, w1) \<Rightarrow> processIndexedFiles rest m1 w1)"

text \<open>\<^verbatim>\<open>generateBuildInfoMarkdown\<close> (lines 146-165).\<close>

definition generateBuildInfoMarkdown :: "collaborators \<Rightarrow> world \<Rightarrow> error option \<times> world" where
  "generateBuildInfoMarkdown col w =
     (case NewBuildInfoSummary col w of
        (Inl e, w1) \<Rightarrow> (Some (Errorf ''error generating build-info markdown: %w'' [FErr e]), w1)
      | (Inr buildInfoSummary, w1) \<Rightarrow>
          (case GetIndexedDataFilesPaths buildInfoSummary w1 of
             (Inl e, w2) \<Rightarrow> (Some e, w2)
           | (Inr indexedFiles, w2) \<Rightarrow>
               (case processIndexedFiles indexedFiles Map.empty w2 of
                  (myMappedResults, w3) \<Rightarrow>
                    GenerateMarkdown buildInfoSummary
                      (w3\<lparr>ScanResultsMapping := myMappedResults\<rparr>))))"

text \<open>\<^verbatim>\<open>shouldGenerateUploadSummary\<close> (lines 200-210).\<close>

definition shouldGenerateUploadSummary :: "world \<Rightarrow> bool \<times> error option" where
  "shouldGenerateUploadSummary w =
     (let buildInfoPath =
            path_Join [os_Getenv SummaryOutputDirPathEnv w, JfrogCliSummaryDir, BuildInfo]
      in if os_IsNotExist (os_Stat buildInfoPath w) then (True, None)
         else
           (case os_ReadDir buildInfoPath w of
              (dirEntries, Some e) \<Rightarrow>
                (False, Some (Errorf ''error reading directory: %w'' [FErr (OsError e)]))
            | (dirEntries, None) \<Rightarrow> (length dirEntries = 0, None)))"

text \<open>\<^verbatim>\<open>generateUploadMarkdown\<close> (lines 187-197).\<close>

definition generateUploadMarkdown :: "collaborators \<Rightarrow> world \<Rightarrow> error option \<times> world" where
  "generateUploadMarkdown col w =
     (case shouldGenerateUploadSummary w of
        (should, err) \<Rightarrow>
          if err \<noteq> None \<or> \<not> should
          then (err,
                log_write Debug
                  [FStr ''Skipping upload summary generation due build-info data to avoid duplications...'']
                  w)
          else
            (case NewUploadSummary col w of
               (Inl e, w1) \<Rightarrow> (Some (Errorf ''error generating upload markdown: %w'' [FErr e]), w1)
             | (Inr uploadSummary, w1) \<Rightarrow> GenerateMarkdown uploadSummary w1))"

text \<open>\<^verbatim>\<open>invokeSectionMarkdownGeneration\<close> (lines 125-136).\<close>

definition invokeSectionMarkdownGeneration ::
  "collaborators \<Rightarrow> MarkdownSection \<Rightarrow> world \<Rightarrow> error option \<times> world" where
  "invokeSectionMarkdownGeneration col section w =
     (if section = Security then generateSecurityMarkdown col w
      else if section = BuildInfo then generateBuildInfoMarkdown col w
      else if section = Upload then generateUploadMarkdown col w
      else (Some (Errorf ''unknown section: %s'' [FStr section]), w))"

text \<open>\<^verbatim>\<open>getSectionMarkdownContent\<close> (lines 109-123).\<close>

definition getSectionMarkdownContent :: "MarkdownSection \<Rightarrow> world \<Rightarrow> error + string" where
  "getSectionMarkdownContent section w =
     (let sectionFilepath =
            path_Join [os_Getenv SummaryOutputDirPathEnv w, JfrogCliSummaryDir, section,
                       MarkdownFileName]
      in if os_IsNotExist (os_Stat sectionFilepath w) then Inr []
         else
           (case os_ReadFile sectionFilepath w of
              (contentBytes, Some e) \<Rightarrow>
                Inl (Errorf ''error reading markdown file for section %s: %w''
                       [FStr section, FErr (OsError e)])
            | (contentBytes, None) \<Rightarrow>
                if length contentBytes = 0 then Inr [] else Inr contentBytes))"

text \<open>\<^verbatim>\<open>combineMarkdownFiles\<close> (lines 74-87): the loop, with the builder as accumulator.
  \<^verbatim>\<open>strings.Builder.WriteString\<close> always returns a nil error, so the branch of line 83
  is never taken.\<close>

fun combineSections :: "MarkdownSection list \<Rightarrow> string \<Rightarrow> world \<Rightarrow> error + string" where
  "combineSections [] combinedMarkdown w = Inr combinedMarkdown"
| "combineSections (section # rest) combinedMarkdown w =
     (case getSectionMarkdownContent section w of
        Inl e \<Rightarrow> Inl (Errorf ''error getting markdown content for section %s: %w''
                        [FStr section, FErr e])
      | Inr sectionContent \<Rightarrow> combineSections rest (combinedMarkdown @ sectionContent) w)"

definition combineMarkdownFiles :: "world \<Rightarrow> error + string" where
  "combineMarkdownFiles w = combineSections markdownSections [] w"

text \<open>\<^verbatim>\<open>saveMarkdownToFileSystem\<close> (lines 90-107). The \<open>err\<close> of line 103 is local to the
  \<^verbatim>\<open>if\<close>; the bare \<^verbatim>\<open>return\<close> of line 106 returns the nil \<open>err\<close> of line 95.\<close>

definition finalMarkdownPath :: "world \<Rightarrow> string" where
  "finalMarkdownPath w =
     path_Join [os_Getenv SummaryOutputDirPathEnv w, JfrogCliSummaryDir, MarkdownFileName]"

definition saveMarkdownToFileSystem :: "string \<Rightarrow> world \<Rightarrow> error option \<times> world" where
  "saveMarkdownToFileSystem finalMarkdown w =
     (if finalMarkdown = [] then (None, w)
      else
        (case os_Create (finalMarkdownPath w) w of
           ((file, Some e), w1) \<Rightarrow>
             deferred_Close file
               (Some (Errorf ''error creating markdown file: %w'' [FErr (OsError e)]), w1)
         | ((file, None), w1) \<Rightarrow>
             (case file_Write file finalMarkdown w1 of
                (Some e, w2) \<Rightarrow>
                  deferred_Close file
                    (Some (Errorf ''error writing to markdown file: %w'' [FErr (OsError e)]), w2)
              | (None, w2) \<Rightarrow> deferred_Close file (None, w2))))"

text \<open>The loop of lines 59-63: every section is invoked, an error is logged as a warning
  and the loop goes on.\<close>

fun invokeSections :: "collaborators \<Rightarrow> MarkdownSection list \<Rightarrow> world \<Rightarrow> world" where
  "invokeSections col [] w = w"
| "invokeSections col (section # rest) w =
     (case invokeSectionMarkdownGeneration col section w of
        (Some e, w1) \<Rightarrow>
          invokeSections col rest
            (log_write Warn
               [FStr ''Failed to generate markdown for section %s: %v'', FStr section, FErr e] w1)
      | (None, w1) \<Rightarrow> invokeSections col rest w1)"

text \<open>\<^verbatim>\<open>GenerateSummaryMarkdown\<close> (lines 43-72).\<close>

definition GenerateSummaryMarkdown ::
  "collaborators \<Rightarrow> cli_Context \<Rightarrow> world \<Rightarrow> error option \<times> world" where
  "GenerateSummaryMarkdown col c w =
     (if \<not> ShouldGenerateSummary w
      then (Some (Errorf (''unable to generate the command summary because the output directory is not specified.''
                      @ '' Please ensure that the environment variable '' @ [CHR 0x27] @ ''%s'' @ [CHR 0x27]
                      @ '' is set before running your commands to enable summary generation'')
                     [FStr SummaryOutputDirPathEnv]), w)
      else
        (case extractServerUrlAndVersion col c w of
           (Inl e, w1) \<Rightarrow>
             (Some (Errorf ''failed to get server URL or major version: %v. This means markdown URLs will be invalid'' [FErr e]),
              w1)
         | (Inr (serverUrl, majorVersion), w1) \<Rightarrow>
             (case InitMarkdownGenerationValues col serverUrl majorVersion w1 of
                (Some e, w2) \<Rightarrow>
                  (Some (Errorf ''failed to initialize command summary values: %w'' [FErr e]), w2)
              | (None, w2) \<Rightarrow>
                  (let w3 = invokeSections col markdownSections w2
                   in case combineMarkdownFiles w3 of
                        Inl e \<Rightarrow> (Some (Errorf ''error combining markdown files: %w'' [FErr e]), w3)
                      | Inr finalMarkdown \<Rightarrow> saveMarkdownToFileSystem finalMarkdown w3))))"

section \<open>The contract of the JSON library, and a reference codec\<close>

text \<open>What the store needs of \<^verbatim>\<open>encoding/json\<close>: a wrapper of representable results is
  encoded without error to a non-empty text that decodes to the same wrapper (nil stays
  nil, empty stays empty); whatever decodes without error holds representable results
  only.\<close>

definition codec_ok :: "codec \<Rightarrow> bool" where
  "codec_ok cdc =
     ((\<forall>W. list_all (representable cdc) (elems (Results W)) \<longrightarrow>
           (\<exists>b. MarshalIndent cdc W = Inr b \<and> b \<noteq> [] \<and> Unmarshal cdc b = (W, None)))
      \<and> (\<forall>b W. Unmarshal cdc b = (W, None) \<longrightarrow>
                 list_all (representable cdc) (elems (Results W))))"

text \<open>The reference codec writes exactly what \<^verbatim>\<open>json.MarshalIndent(v, "", "  ")\<close> and
  \<^verbatim>\<open>json.Marshal(v)\<close> write for results whose strings need no escaping (printable ASCII
  without the double quote, the backslash and the three characters Go escapes for HTML),
  and reads that indented form back. It refuses any other string instead of escaping it,
  and any other text as a syntax error, leaving the zero wrapper.\<close>

definition dq :: char where
  "dq = CHR 0x22"

definition plain_char :: "char \<Rightarrow> bool" where
  "plain_char c =
     (32 \<le> (of_char c :: nat) \<and> (of_char c :: nat) < 127
      \<and> c \<noteq> dq \<and> c \<noteq> CHR 0x5C \<and> c \<noteq> CHR ''<'' \<and> c \<noteq> CHR ''>'' \<and> c \<noteq> CHR ''&'')"

definition plain_result :: "Result \<Rightarrow> bool" where
  "plain_result r =
     (list_all plain_char (SourcePath r) \<and> list_all plain_char (TargetPath r)
      \<and> list_all plain_char (RtUrl r))"

definition quoted :: "string \<Rightarrow> string" where
  "quoted s = dq # s @ [dq]"

definition item_open :: string where
  "item_open = ''    {\<newline>      '' @ quoted ''sourcePath'' @ '': '' @ [dq]"

definition item_mid1 :: string where
  "item_mid1 = '',\<newline>      '' @ quoted ''targetPath'' @ '': '' @ [dq]"

definition item_mid2 :: string where
  "item_mid2 = '',\<newline>      '' @ quoted ''rtUrl'' @ '': '' @ [dq]"

definition item_close :: string where
  "item_close = ''\<newline>    }''"

definition enc_result :: "Result \<Rightarrow> string" where
  "enc_result r =
     item_open @ SourcePath r @ [dq] @ item_mid1 @ TargetPath r @ [dq]
       @ item_mid2 @ RtUrl r @ [dq] @ item_close"

fun enc_results :: "Result list \<Rightarrow> string" where
  "enc_results [] = []"
| "enc_results [r] = enc_result r"
| "enc_results (r # r' # rs) = enc_result r @ '',\<newline>'' @ enc_results (r' # rs)"

definition enc_slice :: "Result slice \<Rightarrow> string" where
  "enc_slice s =
     (case s of
        None \<Rightarrow> ''null''
      | Some [] \<Rightarrow> ''[]''
      | Some (r # rs) \<Rightarrow> ''[\<newline>'' @ enc_results (r # rs) @ ''\<newline>  ]'')"

definition doc_open :: string where
  "doc_open = ''{\<newline>  '' @ quoted ''results'' @ '': ''"

definition doc_close :: string where
  "doc_close = ''\<newline>}''"

definition ref_MarshalIndent :: "ResultsWrapper \<Rightarrow> json_error + bytes" where
  "ref_MarshalIndent W =
     (if list_all plain_result (elems (Results W))
      then Inr (doc_open @ enc_slice (Results W) @ doc_close)
      else Inl UnsupportedValue)"

definition compact_result :: "Result \<Rightarrow> string" where
  "compact_result r =
     ''{'' @ quoted ''sourcePath'' @ '':'' @ quoted (SourcePath r) @ '',''
       @ quoted ''targetPath'' @ '':'' @ quoted (TargetPath r) @ '',''
       @ quoted ''rtUrl'' @ '':'' @ quoted (RtUrl r) @ ''}''"

fun compact_results :: "Result list \<Rightarrow> string" where
  "compact_results [] = []"
| "compact_results [r] = compact_result r"
| "compact_results (r # r' # rs) = compact_result r @ '','' @ compact_results (r' # rs)"

definition ref_Marshal :: "ResultsWrapper \<Rightarrow> json_error + bytes" where
  "ref_Marshal W =
     (if list_all plain_result (elems (Results W))
      then Inr (''{'' @ quoted ''results'' @ '':''
                 @ (case Results W of
                      None \<Rightarrow> ''null''
                    | Some rs \<Rightarrow> ''['' @ compact_results rs @ '']'')
                 @ ''}'')
      else Inl UnsupportedValue)"

definition expect :: "string \<Rightarrow> string \<Rightarrow> string option" where
  "expect p s = (if take (length p) s = p then Some (drop (length p) s) else None)"

fun read_plain :: "string \<Rightarrow> (string \<times> string) option" where
  "read_plain [] = None"
| "read_plain (c # cs) =
     (if c = dq then Some ([], cs)
      else if plain_char c
      then (case read_plain cs of None \<Rightarrow> None | Some (s, r) \<Rightarrow> Some (c # s, r))
      else None)"

definition dec_result :: "string \<Rightarrow> (Result \<times> string) option" where
  "dec_result s =
     (case expect item_open s of
        None \<Rightarrow> None
      | Some s1 \<Rightarrow>
          (case read_plain s1 of
             None \<Rightarrow> None
           | Some (src, s2) \<Rightarrow>
               (case expect item_mid1 s2 of
                  None \<Rightarrow> None
                | Some s3 \<Rightarrow>
                    (case read_plain s3 of
                       None \<Rightarrow> None
                     | Some (tgt, s4) \<Rightarrow>
                         (case expect item_mid2 s4 of
                            None \<Rightarrow> None
                          | Some s5 \<Rightarrow>
                              (case read_plain s5 of
                                 None \<Rightarrow> None
                               | Some (url, s6) \<Rightarrow>
                                   (case expect item_close s6 of
                                      None \<Rightarrow> None
                                    | Some s7 \<Rightarrow>
                                        Some (\<lparr>SourcePath = src, TargetPath = tgt, RtUrl = url\<rparr>,
                                              s7))))))))"

text \<open>The items of an array, with the length of the text as fuel: every item read takes
  characters off the text.\<close>

fun dec_results :: "nat \<Rightarrow> string \<Rightarrow> (Result list \<times> string) option" where
  "dec_results 0 s = None"
| "dec_results (Suc n) s =
     (case dec_result s of
        None \<Rightarrow> None
      | Some (r, s1) \<Rightarrow>
          (case expect '',\<newline>'' s1 of
             None \<Rightarrow> Some ([r], s1)
           | Some s2 \<Rightarrow>
               (case dec_results n s2 of
                  None \<Rightarrow> None
                | Some (rs, s3) \<Rightarrow> Some (r # rs, s3))))"

definition dec_slice :: "string \<Rightarrow> (Result slice \<times> string) option" where
  "dec_slice s =
     (case expect ''null'' s of
        Some r \<Rightarrow> Some (None, r)
      | None \<Rightarrow>
          (case expect ''[]'' s of
             Some r \<Rightarrow> Some (Some [], r)
           | None \<Rightarrow>
               (case expect ''[\<newline>'' s of
                  None \<Rightarrow> None
                | Some s1 \<Rightarrow>
                    (case dec_results (length s1) s1 of
                       None \<Rightarrow> None
                     | Some (rs, s2) \<Rightarrow>
                         (case expect ''\<newline>  ]'' s2 of
                            None \<Rightarrow> None
                          | Some s3 \<Rightarrow> Some (Some rs, s3))))))"

definition ref_Unmarshal :: "bytes \<Rightarrow> ResultsWrapper \<times> json_error option" where
  "ref_Unmarshal b =
     (case expect doc_open b of
        None \<Rightarrow> (\<lparr>Results = None\<rparr>, Some SyntaxError)
      | Some s \<Rightarrow>
          (case dec_slice s of
             None \<Rightarrow> (\<lparr>Results = None\<rparr>, Some SyntaxError)
           | Some (sl, s1) \<Rightarrow>
               if s1 = doc_close then (\<lparr>Results = sl\<rparr>, None)
               else (\<lparr>Results = None\<rparr>, Some SyntaxError)))"

definition ref_codec :: codec where
  "ref_codec =
     \<lparr>Unmarshal = ref_Unmarshal, MarshalIndent = ref_MarshalIndent, Marshal = ref_Marshal,
      representable = plain_result\<rparr>"

section \<open>Notions the statements use\<close>

text \<open>What \<^verbatim>\<open>load()\<close> returns: the results of the wrapper that
  \<open>loadAndMarshalResultsFile\<close> hands back.\<close>

definition stored :: "codec \<Rightarrow> GitHubActionSummary \<Rightarrow> world \<Rightarrow> Result list" where
  "stored cdc gh w = elems (Results (fst (fst (loadAndMarshalResultsFile cdc gh w))))"

definition load_error :: "codec \<Rightarrow> GitHubActionSummary \<Rightarrow> world \<Rightarrow> error option" where
  "load_error cdc gh w = snd (snd (fst (loadAndMarshalResultsFile cdc gh w)))"

text \<open>The batch one call appends: the results its fragment files hold, in the order of
  the files and of the results in each file; nothing when a fragment cannot be read or
  parsed.\<close>

definition batch :: "codec \<Rightarrow> utils_Result option \<Rightarrow> world \<Rightarrow> Result list" where
  "batch cdc result w =
     (case readResultFiles cdc (resultFilesPaths result) None w of
        Inl e \<Rightarrow> []
      | Inr readContent \<Rightarrow> elems readContent)"

text \<open>The error of one fragment file: what \<^verbatim>\<open>os.ReadFile\<close> or \<^verbatim>\<open>json.Unmarshal\<close>
  reports for it.\<close>

definition fragment_error :: "codec \<Rightarrow> string \<Rightarrow> world \<Rightarrow> error option" where
  "fragment_error cdc p w =
     (case os_ReadFile p w of
        (bs, Some e) \<Rightarrow> Some (OsError e)
      | (bs, None) \<Rightarrow> map_option JsonError (snd (Unmarshal cdc bs)))"

text \<open>The results one fragment file holds.\<close>

definition fragment_results :: "codec \<Rightarrow> string \<Rightarrow> world \<Rightarrow> Result list" where
  "fragment_results cdc p w = elems (Results (fst (Unmarshal cdc (fst (os_ReadFile p w)))))"

text \<open>A sequence of append calls, one after the other, and the batches they append.\<close>

fun AppendResults ::
  "codec \<Rightarrow> GitHubActionSummary \<Rightarrow> utils_Result option list \<Rightarrow> world \<Rightarrow> world" where
  "AppendResults cdc gh [] w = w"
| "AppendResults cdc gh (result # rest) w =
     AppendResults cdc gh rest (snd (AppendResult cdc gh result w))"

fun appended ::
  "codec \<Rightarrow> GitHubActionSummary \<Rightarrow> utils_Result option list \<Rightarrow> world \<Rightarrow> Result list" where
  "appended cdc gh [] w = []"
| "appended cdc gh (result # rest) w =
     batch cdc result w @ appended cdc gh rest (snd (AppendResult cdc gh result w))"

text \<open>The system lets the store file be read and written: no refusal on its path, and
  the path is not a directory.\<close>

definition store_accessible :: "GitHubActionSummary \<Rightarrow> world \<Rightarrow> bool" where
  "store_accessible gh w =
     (fault w (getDataFilePath gh) OpRead = None
      \<and> fault w (getDataFilePath gh) OpOpen = None
      \<and> fault w (getDataFilePath gh) OpWrite = None
      \<and> fault w (getDataFilePath gh) OpClose = None
      \<and> (case files w (getDataFilePath gh) of Some (Dir es) \<Rightarrow> False | _ \<Rightarrow> True))"

text \<open>The store file is missing, empty, or holds a text that decodes.\<close>

definition store_valid :: "codec \<Rightarrow> GitHubActionSummary \<Rightarrow> world \<Rightarrow> bool" where
  "store_valid cdc gh w =
     (case files w (getDataFilePath gh) of
        Some (File b) \<Rightarrow> b = [] \<or> snd (Unmarshal cdc b) = None
      | _ \<Rightarrow> True)"

text \<open>The path of a section's markdown file, what it holds (nothing when it is absent),
  and that the system lets it be read.\<close>

definition sectionFilepath :: "MarkdownSection \<Rightarrow> world \<Rightarrow> string" where
  "sectionFilepath section w =
     path_Join [os_Getenv SummaryOutputDirPathEnv w, JfrogCliSummaryDir, section,
                MarkdownFileName]"

definition section_content :: "MarkdownSection \<Rightarrow> world \<Rightarrow> string" where
  "section_content section w =
     (case files w (sectionFilepath section w) of Some (File b) \<Rightarrow> b | _ \<Rightarrow> [])"

definition section_readable :: "MarkdownSection \<Rightarrow> world \<Rightarrow> bool" where
  "section_readable section w =
     (fault w (sectionFilepath section w) OpStat = None
      \<and> fault w (sectionFilepath section w) OpRead = None
      \<and> (case files w (sectionFilepath section w) of Some (Dir es) \<Rightarrow> False | _ \<Rightarrow> True))"

text \<open>One round of the loop of lines 59-63: the section's generator runs, and its error,
  if any, goes to the log.\<close>

definition section_step :: "collaborators \<Rightarrow> MarkdownSection \<Rightarrow> world \<Rightarrow> world" where
  "section_step col section w =
     (case invokeSectionMarkdownGeneration col section w of
        (Some e, w1) \<Rightarrow>
          log_write Warn
            [FStr ''Failed to generate markdown for section %s: %v'', FStr section, FErr e] w1
      | (None, w1) \<Rightarrow> w1)"

text \<open>The world once the three sections have had their round, in the fixed order.\<close>

definition sections_done :: "collaborators \<Rightarrow> world \<Rightarrow> world" where
  "sections_done col w =
     section_step col Upload (section_step col BuildInfo (section_step col Security w))"

text \<open>The world when the upload section has been skipped: only the debug line of line
  189 is added.\<close>

definition upload_skipped :: "world \<Rightarrow> world" where
  "upload_skipped w =
     log_write Debug
       [FStr ''Skipping upload summary generation due build-info data to avoid duplications...'']
       w"

text \<open>Whether a section's generator reports an error in a given world.\<close>

definition section_failed :: "collaborators \<Rightarrow> MarkdownSection \<Rightarrow> world \<Rightarrow> bool" where
  "section_failed col section w = (fst (invokeSectionMarkdownGeneration col section w) \<noteq> None)"

text \<open>The directory of the build-info section.\<close>

definition buildInfoPath :: "world \<Rightarrow> string" where
  "buildInfoPath w = path_Join [os_Getenv SummaryOutputDirPathEnv w, JfrogCliSummaryDir, BuildInfo]"

text \<open>The handle \<^verbatim>\<open>generateMarkdown\<close> holds after line 146: the file is opened once the
  previous one has been removed.\<close>

definition summaryMarkdownPath :: "GitHubActionSummary \<Rightarrow> string" where
  "summaryMarkdownPath gh = path_Join [dirPath gh, ''github-action-summary.md'']"

definition generateMarkdown_file :: "GitHubActionSummary \<Rightarrow> world \<Rightarrow> handle" where
  "generateMarkdown_file gh w =
     fst (fst (os_OpenFile (summaryMarkdownPath gh) [O_APPEND, O_CREATE, O_WRONLY]
                 (snd (os_Remove (summaryMarkdownPath gh) w))))"

section \<open>Concrete inputs\<close>

text \<open>Three results with plain strings, two fragment files that hold them as
  \<^verbatim>\<open>json.MarshalIndent\<close> writes them, and a fragment that is not JSON.\<close>

definition ex_r1 :: Result where
  "ex_r1 = \<lparr>SourcePath = ''a/x.txt'', TargetPath = ''repo/a/b/x.txt'', RtUrl = ''https://rt/''\<rparr>"

definition ex_r2 :: Result where
  "ex_r2 = \<lparr>SourcePath = ''a/y.txt'', TargetPath = ''repo/a/c/y.txt'', RtUrl = ''https://rt/''\<rparr>"

definition ex_r3 :: Result where
  "ex_r3 = \<lparr>SourcePath = ''z.txt'', TargetPath = ''repo/z.txt'', RtUrl = ''https://rt/''\<rparr>"

definition ex_fragment1 :: bytes where
  "ex_fragment1 = doc_open @ enc_slice (Some [ex_r1]) @ doc_close"

definition ex_fragment2 :: bytes where
  "ex_fragment2 = doc_open @ enc_slice (Some [ex_r2, ex_r3]) @ doc_close"

definition ex_environ :: "string \<Rightarrow> string" where
  "ex_environ name = (if name = SummaryOutputDirPathEnv then ''/out'' else [])"

definition no_fault :: "string \<Rightarrow> os_op \<Rightarrow> os_error option" where
  "no_fault p op = None"

text \<open>A machine on which the store file does not exist yet.\<close>

definition ex_fresh :: world where
  "ex_fresh =
     \<lparr>files = [''/tmp/f1.json'' \<mapsto> File ex_fragment1,
               ''/tmp/f2.json'' \<mapsto> File ex_fragment2,
               ''/tmp/bad.json'' \<mapsto> File ''not json''],
      fault = no_fault, environ = ex_environ, logs = [], ScanResultsMapping = Map.empty\<rparr>"

definition ex_gh :: GitHubActionSummary where
  "ex_gh = newGithubActionSummary"

definition ex_store :: string where
  "ex_store = ''/Users/runner/.jfrog/jfrog-github-summary/data.json''"

definition fragments :: "string list \<Rightarrow> utils_Result option" where
  "fragments ps = Some \<lparr>reader = Some \<lparr>filesPaths = ps\<rparr>\<rparr>"

text \<open>The store holds one result already; then the same store made unreadable, and a
  store whose text is not JSON.\<close>

definition ex_one_stored :: world where
  "ex_one_stored = ex_fresh\<lparr>files := (files ex_fresh)(ex_store \<mapsto> File ex_fragment1)\<rparr>"








text \<open>Collaborators for the command summary: the server answers; the security summary
  cannot be created; the build-info summary has no indexed files and writes nothing; the
  upload summary writes its markdown file.\<close>

definition ex_upload_markdown :: string where
  "ex_upload_markdown = ''/out/jfrog-command-summary/upload/markdown.md''"

definition ex_security_markdown :: string where
  "ex_security_markdown = ''/out/jfrog-command-summary/security/markdown.md''"

definition ex_final_markdown :: string where
  "ex_final_markdown = ''/out/jfrog-command-summary/markdown.md''"

definition ex_build_info_dir :: string where
  "ex_build_info_dir = ''/out/jfrog-command-summary/build-info''"

definition ex_quiet_summary :: CommandSummary where
  "ex_quiet_summary =
     \<lparr>GenerateMarkdown = (\<lambda>w. (None, w)), GetIndexedDataFilesPaths = (\<lambda>w. (Inr [], w))\<rparr>"

definition ex_upload_summary :: CommandSummary where
  "ex_upload_summary =
     \<lparr>GenerateMarkdown =
        (\<lambda>w. (None, w\<lparr>files := (files w)(ex_upload_markdown \<mapsto> File ''# Upload\<newline>'')\<rparr>)),
      GetIndexedDataFilesPaths = (\<lambda>w. (Inr [], w))\<rparr>"

definition ex_col :: collaborators where
  "ex_col =
     \<lparr>CreateServerDetailsWithConfigOffer = (\<lambda>c w. (Inr \<lparr>Url = ''https://acme.jfrog.io/''\<rparr>, w)),
      CreateServiceManager = (\<lambda>d w. (Inr (ServicesManager d), w)),
      GetRtMajorVersion = (\<lambda>m w. (Inr 7, w)),
      InitMarkdownGenerationValues = (\<lambda>u v w. (None, w)),
      SecurityCommandsJobSummary = (\<lambda>w. (Inl (ErrorNew ''no security data''), w)),
      NewBuildInfoSummary = (\<lambda>w. (Inr ex_quiet_summary, w)),
      NewUploadSummary = (\<lambda>w. (Inr ex_upload_summary, w))\<rparr>"

text \<open>The same, but the upload summary has nothing to write either.\<close>

definition ex_col_quiet :: collaborators where
  "ex_col_quiet = ex_col\<lparr>NewUploadSummary := (\<lambda>w. (Inr ex_quiet_summary, w))\<rparr>"

text \<open>An output directory without section files; one where an earlier run left a security
  markdown file; one where the build-info directory has an entry.\<close>

definition ex_out_empty :: world where
  "ex_out_empty =
     \<lparr>files = Map.empty, fault = no_fault, environ = ex_environ, logs = [],
      ScanResultsMapping = Map.empty\<rparr>"

definition ex_out_stale :: world where
  "ex_out_stale =
     ex_out_empty\<lparr>files := [ex_security_markdown \<mapsto> File ''# Security\<newline>'']\<rparr>"

definition ex_out_build_info :: world where
  "ex_out_build_info =
     ex_out_empty\<lparr>files := [ex_build_info_dir \<mapsto> Dir [''markdown.md'']]\<rparr>"

text \<open>The system refuses to write to the final report, and closes it without error; the
  system refuses to create the final report; the system writes the final report and fails
  to close it. A refused write for the markdown file of the store.\<close>

definition ex_write_refused :: world where
  "ex_write_refused =
     ex_out_empty\<lparr>fault :=
       (\<lambda>p op. if p = ex_final_markdown \<and> op = OpWrite then Some ErrIO else None)\<rparr>"

definition ex_create_refused :: world where
  "ex_create_refused =
     ex_out_empty\<lparr>fault :=
       (\<lambda>p op. if p = ex_final_markdown \<and> op = OpOpen then Some ErrPermission else None)\<rparr>"

definition ex_close_fails :: world where
  "ex_close_fails =
     ex_out_empty\<lparr>fault :=
       (\<lambda>p op. if p = ex_final_markdown \<and> op = OpClose then Some ErrIO else None)\<rparr>"

definition ex_gh_tree :: GitHubActionSummary where
  "ex_gh_tree = ex_gh\<lparr>uploadTree := Some (AddFile ''repo/a/b/x.txt'' NewFileTree)\<rparr>"

definition ex_summary_md :: string where
  "ex_summary_md = ''/Users/runner/.jfrog/jfrog-github-summary/github-action-summary.md''"

definition ex_md_write_refused :: world where
  "ex_md_write_refused =
     ex_out_empty\<lparr>fault :=
       (\<lambda>p op. if p = ex_summary_md \<and> op = OpWrite then Some ErrIO else None)\<rparr>"

text \<open>What the claim about the combined report promises: a section whose generator failed
  counts as empty, any other counts with the content of its file at the end.\<close>

definition claimed_document :: "collaborators \<Rightarrow> world \<Rightarrow> string" where
  "claimed_document col w =
     (let w1 = section_step col Security w;
          w2 = section_step col BuildInfo w1;
          w3 = section_step col Upload w2
      in (if section_failed col Security w then [] else section_content Security w3)
         @ (if section_failed col BuildInfo w1 then [] else section_content BuildInfo w3)
         @ (if section_failed col Upload w2 then [] else section_content Upload w3))"

section \<open>The reference codec keeps the contract\<close>

lemma expect_append: "expect p (p @ r) = Some r"
  by (simp add: expect_def)

lemma read_plain_ok: "list_all plain_char s \<Longrightarrow> read_plain (s @ dq # r) = Some (s, r)"
  by (induction s) (auto simp: plain_char_def)

lemma dec_enc_result: "plain_result r \<Longrightarrow> dec_result (enc_result r @ t) = Some (r, t)"
  by (simp add: dec_result_def enc_result_def expect_append read_plain_ok plain_result_def)

lemma dec_enc_results:
  "rs \<noteq> [] \<Longrightarrow> list_all plain_result rs \<Longrightarrow> length rs \<le> n \<Longrightarrow> expect '',\<newline>'' t = None
     \<Longrightarrow> dec_results n (enc_results rs @ t) = Some (rs, t)"
proof (induction rs arbitrary: n)
  case Nil
  then show ?case by simp
next
  case (Cons r rs)
  then obtain m where n: "n = Suc m" by (cases n) auto
  show ?case
  proof (cases rs)
    case Nil
    with Cons.prems n show ?thesis by (simp add: dec_enc_result)
  next
    case (Cons r' rs')
    with Cons.prems n Cons.IH [of m] show ?thesis
      using expect_append [of "'',\<newline>''"] by (simp add: dec_enc_result)
  qed
qed

lemma length_enc_result: "0 < length (enc_result r)"
  by (simp add: enc_result_def item_open_def)

lemma length_enc_results: "length rs \<le> length (enc_results rs)"
proof (induction rs rule: enc_results.induct)
  case (2 r)
  then show ?case using length_enc_result [of r] by (simp add: Suc_leI)
next
  case (3 r r' rs)
  then show ?case using length_enc_result [of r] by simp
qed simp

lemma dec_enc_slice:
  assumes "list_all plain_result (elems sl)"
  shows "dec_slice (enc_slice sl @ doc_close) = Some (sl, doc_close)"
proof (cases sl)
  case None
  then show ?thesis by (simp add: dec_slice_def enc_slice_def expect_def)
next
  case (Some rs)
  show ?thesis
  proof (cases rs)
    case Nil
    with Some show ?thesis by (simp add: dec_slice_def enc_slice_def expect_def doc_close_def)
  next
    case (Cons r rs')
    let ?t = "''\<newline>  ]'' @ doc_close"
    have len: "length rs \<le> length (enc_results rs @ ?t)"
      using length_enc_results [of rs] by simp
    have none: "expect '',\<newline>'' ?t = None"
      by (simp add: expect_def)
    have "dec_results (length (enc_results rs @ ?t)) (enc_results rs @ ?t) = Some (rs, ?t)"
      using dec_enc_results [OF _ _ len none] assms Some Cons by (simp add: elems_def)
    with Some Cons show ?thesis
      by (simp add: dec_slice_def enc_slice_def expect_def)
  qed
qed

lemma ref_roundtrip:
  "list_all plain_result (elems (Results W)) \<Longrightarrow>
     ref_Unmarshal (doc_open @ enc_slice (Results W) @ doc_close) = (W, None)"
  by (simp add: ref_Unmarshal_def expect_append dec_enc_slice)

lemma read_plain_plain: "read_plain s = Some (x, r) \<Longrightarrow> list_all plain_char x"
  by (induction s arbitrary: x r) (auto split: if_splits option.splits)

lemma dec_result_plain: "dec_result s = Some (r, t) \<Longrightarrow> plain_result r"
  unfolding dec_result_def plain_result_def
  by (auto split: option.splits) (erule read_plain_plain)+

lemma dec_results_plain: "dec_results n s = Some (rs, t) \<Longrightarrow> list_all plain_result rs"
  by (induction n arbitrary: s rs t) (auto split: option.splits, (erule dec_result_plain)+)

lemma ref_Unmarshal_plain:
  "ref_Unmarshal b = (W, None) \<Longrightarrow> list_all plain_result (elems (Results W))"
  by (auto simp: ref_Unmarshal_def dec_slice_def elems_def split: option.splits if_splits,
      (erule dec_results_plain)+)

lemma doc_open_nonempty: "doc_open \<noteq> []"
  by (simp add: doc_open_def)

lemma ref_codec_ok: "codec_ok ref_codec"
  unfolding codec_ok_def ref_codec_def
  by (auto simp: ref_MarshalIndent_def ref_roundtrip doc_open_nonempty elim: ref_Unmarshal_plain)

section \<open>The operating system and the store: auxiliary facts\<close>

lemma log_write_fields [simp]:
  "files (log_write l a w) = files w" "fault (log_write l a w) = fault w"
  "environ (log_write l a w) = environ w"
  by (simp_all add: log_write_def)

lemma os_ReadFile_log_write [simp]: "os_ReadFile p (log_write l a w) = os_ReadFile p w"
  by (simp add: os_ReadFile_def split: option.splits)

lemma elems_go_append [simp]: "elems (go_append s t) = elems s @ elems t"
  by (cases s) (simp_all add: go_append_def elems_def)

lemma os_WriteFile_ok:
  assumes "fault w p OpOpen = None" "fault w p OpWrite = None" "fault w p OpClose = None"
    and "case files w p of Some (Dir es) \<Rightarrow> False | _ \<Rightarrow> True"
  shows "os_WriteFile p b w = (None, w\<lparr>files := (files w)(p \<mapsto> File b)\<rparr>)"
proof (cases "files w p")
  case None
  with assms show ?thesis
    by (simp add: os_WriteFile_def os_OpenFile_def file_Write_def file_Close_def)
next
  case (Some n)
  with assms obtain old where "n = File old" by (cases n) auto
  with Some assms show ?thesis
    by (simp add: os_WriteFile_def os_OpenFile_def file_Write_def file_Close_def)
qed

lemma readResultFiles_representable:
  assumes "codec_ok cdc"
  shows "list_all (representable cdc) (elems acc) \<Longrightarrow> readResultFiles cdc ps acc w = Inr rc
           \<Longrightarrow> list_all (representable cdc) (elems rc)"
proof (induction ps arbitrary: acc)
  case Nil
  then show ?case by simp
next
  case (Cons p ps)
  obtain bs e where rd: "os_ReadFile p w = (bs, e)" by (cases "os_ReadFile p w")
  obtain sw je where um: "Unmarshal cdc bs = (sw, je)" by (cases "Unmarshal cdc bs")
  from Cons.prems(2) rd um have e: "e = None" and je: "je = None"
    by (auto split: option.splits)
  from um je assms have "list_all (representable cdc) (elems (Results sw))"
    unfolding codec_ok_def by blast
  with Cons.prems(1) have "list_all (representable cdc) (elems (go_append acc (Results sw)))"
    by simp
  moreover from Cons.prems(2) rd um e je
  have "readResultFiles cdc ps (go_append acc (Results sw)) w = Inr rc" by simp
  ultimately show ?case by (rule Cons.IH)
qed


lemma load_world:
  "files (snd (loadAndMarshalResultsFile cdc gh w)) = files w"
  "fault (snd (loadAndMarshalResultsFile cdc gh w)) = fault w"
  by (auto simp: loadAndMarshalResultsFile_def split: prod.splits)

lemma stored_accessible:
  assumes "store_accessible gh w"
  shows "stored cdc gh w =
     (case files w (getDataFilePath gh) of
        Some (File b) \<Rightarrow> if b = [] then [] else elems (Results (fst (Unmarshal cdc b)))
      | _ \<Rightarrow> [])"
  using assms
  by (auto simp: stored_def store_accessible_def loadAndMarshalResultsFile_def os_ReadFile_def
      os_IsNotExist_def elems_def split: option.splits node.splits prod.splits)

lemma loaded_representable:
  assumes "codec_ok cdc" "store_accessible gh w" "store_valid cdc gh w"
  shows "list_all (representable cdc)
           (elems (Results (fst (fst (loadAndMarshalResultsFile cdc gh w)))))"
proof (cases "files w (getDataFilePath gh)")
  case None
  with assms(2) show ?thesis
    by (simp add: store_accessible_def loadAndMarshalResultsFile_def os_ReadFile_def
        os_IsNotExist_def elems_def)
next
  case (Some n)
  with assms(2) obtain b where n: "n = File b" by (cases n) (auto simp: store_accessible_def)
  show ?thesis
  proof (cases "b = []")
    case True
    with Some n assms(2) show ?thesis
      by (simp add: store_accessible_def loadAndMarshalResultsFile_def os_ReadFile_def
          os_IsNotExist_def elems_def)
  next
    case False
    obtain tw je where um: "Unmarshal cdc b = (tw, je)" by (cases "Unmarshal cdc b")
    with False Some n assms(3) have "je = None" by (simp add: store_valid_def)
    with um assms(1) have "list_all (representable cdc) (elems (Results tw))"
      unfolding codec_ok_def by blast
    with False Some n assms(2) um show ?thesis
      by (simp add: store_accessible_def loadAndMarshalResultsFile_def os_ReadFile_def
          os_IsNotExist_def)
  qed
qed

lemma AppendResult_step:
  assumes ok: "codec_ok cdc" and acc: "store_accessible gh w" and val: "store_valid cdc gh w"
  shows "store_accessible gh (snd (AppendResult cdc gh result w))
         \<and> store_valid cdc gh (snd (AppendResult cdc gh result w))
         \<and> stored cdc gh (snd (AppendResult cdc gh result w))
             = stored cdc gh w @ batch cdc result w"
proof (cases "readResultFiles cdc (resultFilesPaths result) None w")
  case (Inl e)
  with acc val show ?thesis by (simp add: AppendResult_def batch_def)
next
  case (Inr rc)
  let ?P = "getDataFilePath gh"
  obtain tw tb err w1 where ld: "loadAndMarshalResultsFile cdc gh w = ((tw, tb, err), w1)"
    by (metis prod_cases3 surj_pair)
  have w1: "files w1 = files w" "fault w1 = fault w"
    using load_world [of cdc gh w] ld by simp_all
  have tw: "list_all (representable cdc) (elems (Results tw))"
    using loaded_representable [OF ok acc val] ld by simp
  have rc: "list_all (representable cdc) (elems rc)"
    using readResultFiles_representable [OF ok _ Inr] by (simp add: elems_def)
  let ?W = "tw\<lparr>Results := go_append (Results tw) rc\<rparr>"
  from tw rc have "list_all (representable cdc) (elems (Results ?W))" by simp
  with ok obtain b where b: "MarshalIndent cdc ?W = Inr b" "b \<noteq> []" "Unmarshal cdc b = (?W, None)"
    unfolding codec_ok_def by blast
  have wr: "os_WriteFile ?P b w1 = (None, w1\<lparr>files := (files w1)(?P \<mapsto> File b)\<rparr>)"
    using acc w1 by (intro os_WriteFile_ok) (simp_all add: store_accessible_def)
  let ?w2 = "w1\<lparr>files := (files w1)(?P \<mapsto> File b)\<rparr>"
  have res: "AppendResult cdc gh result w = (None, ?w2)"
    using Inr ld b(1) wr by (simp add: AppendResult_def)
  have acc2: "store_accessible gh ?w2"
    using acc w1 by (simp add: store_accessible_def)
  have val2: "store_valid cdc gh ?w2"
    using b by (simp add: store_valid_def)
  have "stored cdc gh ?w2 = elems (Results ?W)"
    using b by (simp add: stored_accessible [OF acc2])
  moreover have "stored cdc gh w = elems (Results tw)"
    using ld by (simp add: stored_def)
  moreover have "batch cdc result w = elems rc"
    using Inr by (simp add: batch_def)
  ultimately show ?thesis using res acc2 val2 by simp
qed

lemma AppendResults_concat:
  assumes "codec_ok cdc" "store_accessible gh w" "store_valid cdc gh w"
  shows "stored cdc gh (AppendResults cdc gh calls w) = stored cdc gh w @ appended cdc gh calls w"
  using assms(2,3)
proof (induction calls arbitrary: w)
  case Nil
  then show ?case by simp
next
  case (Cons result calls)
  from AppendResult_step [OF assms(1) Cons.prems, of result] Cons.IH
  show ?case by simp
qed


lemma os_WriteFile_frame:
  "fault (snd (os_WriteFile p b w)) = fault w"
  "q \<noteq> p \<Longrightarrow> files (snd (os_WriteFile p b w)) q = files w q"
  by (auto simp: os_WriteFile_def os_OpenFile_def file_Write_def file_Close_def
      split: option.splits node.splits prod.splits if_splits)

lemma AppendResult_world:
  "snd (AppendResult cdc gh result w) = w
   \<or> snd (AppendResult cdc gh result w) = snd (loadAndMarshalResultsFile cdc gh w)
   \<or> (\<exists>b. snd (AppendResult cdc gh result w)
             = snd (os_WriteFile (getDataFilePath gh) b (snd (loadAndMarshalResultsFile cdc gh w))))"
proof (cases "readResultFiles cdc (resultFilesPaths result) None w")
  case (Inl e)
  then show ?thesis by (simp add: AppendResult_def)
next
  case (Inr rc)
  obtain tw tb err w1 where ld: "loadAndMarshalResultsFile cdc gh w = ((tw, tb, err), w1)"
    by (metis prod_cases3 surj_pair)
  show ?thesis
  proof (cases "MarshalIndent cdc (tw\<lparr>Results := go_append (Results tw) rc\<rparr>)")
    case (Inl je)
    with Inr ld show ?thesis by (simp add: AppendResult_def)
  next
    case (Inr b)
    obtain e w2 where wr: "os_WriteFile (getDataFilePath gh) b w1 = (e, w2)"
      by (cases "os_WriteFile (getDataFilePath gh) b w1")
    have "snd (AppendResult cdc gh result w) = w2"
      using \<open>readResultFiles cdc (resultFilesPaths result) None w = Inr rc\<close> ld Inr wr
      by (cases e) (simp_all add: AppendResult_def)
    with ld wr have "snd (AppendResult cdc gh result w)
        = snd (os_WriteFile (getDataFilePath gh) b (snd (loadAndMarshalResultsFile cdc gh w)))"
      by simp
    then show ?thesis by blast
  qed
qed

lemma AppendResult_frame:
  "fault (snd (AppendResult cdc gh result w)) = fault w"
  "q \<noteq> getDataFilePath gh \<Longrightarrow> files (snd (AppendResult cdc gh result w)) q = files w q"
proof -
  show "fault (snd (AppendResult cdc gh result w)) = fault w"
    using AppendResult_world [of cdc gh result w]
    by (elim disjE exE) (simp_all add: load_world os_WriteFile_frame)
  show "files (snd (AppendResult cdc gh result w)) q = files w q" if "q \<noteq> getDataFilePath gh"
    using AppendResult_world [of cdc gh result w] that
    by (elim disjE exE) (simp_all add: load_world os_WriteFile_frame)
qed

lemma os_ReadFile_cong:
  "fault w' = fault w \<Longrightarrow> files w' p = files w p \<Longrightarrow> os_ReadFile p w' = os_ReadFile p w"
  by (simp add: os_ReadFile_def split: option.splits)

lemma readResultFiles_cong:
  "(\<And>p. p \<in> set ps \<Longrightarrow> os_ReadFile p w' = os_ReadFile p w)
     \<Longrightarrow> readResultFiles cdc ps acc w' = readResultFiles cdc ps acc w"
proof (induction ps arbitrary: acc)
  case Nil
  show ?case by simp
next
  case (Cons p ps)
  have hd: "os_ReadFile p w' = os_ReadFile p w" by (rule Cons.prems) simp
  have tl: "readResultFiles cdc ps a w' = readResultFiles cdc ps a w" for a
    by (rule Cons.IH) (simp add: Cons.prems)
  show ?case by (simp add: hd tl)
qed

lemma batch_after_append:
  assumes "getDataFilePath gh \<notin> set (resultFilesPaths result)"
  shows "batch cdc result (snd (AppendResult cdc gh r w)) = batch cdc result w"
proof -
  have "os_ReadFile p (snd (AppendResult cdc gh r w)) = os_ReadFile p w"
    if "p \<in> set (resultFilesPaths result)" for p
  proof (rule os_ReadFile_cong)
    show "fault (snd (AppendResult cdc gh r w)) = fault w" by (rule AppendResult_frame(1))
    from that assms have "p \<noteq> getDataFilePath gh" by auto
    then show "files (snd (AppendResult cdc gh r w)) p = files w p"
      by (rule AppendResult_frame(2))
  qed
  then have "readResultFiles cdc (resultFilesPaths result) None (snd (AppendResult cdc gh r w))
               = readResultFiles cdc (resultFilesPaths result) None w"
    by (rule readResultFiles_cong)
  then show ?thesis
    by (simp add: batch_def)
qed

lemma appended_concat:
  assumes "list_all (\<lambda>result. getDataFilePath gh \<notin> set (resultFilesPaths result)) calls"
  shows "appended cdc gh calls w = concat (map (\<lambda>result. batch cdc result w) calls)"
  using assms
proof (induction calls arbitrary: w)
  case Nil
  then show ?case by simp
next
  case (Cons result calls)
  from Cons.prems have tl:
    "list_all (\<lambda>result. getDataFilePath gh \<notin> set (resultFilesPaths result)) calls" by simp
  have eq: "map (\<lambda>x. batch cdc x (snd (AppendResult cdc gh result w))) calls
          = map (\<lambda>x. batch cdc x w) calls"
    using tl by (intro map_cong [OF refl]) (simp add: list_all_iff batch_after_append)
  show ?case by (simp add: Cons.IH [OF tl] eq)
qed

lemma readResultFiles_all_ok:
  "list_all (\<lambda>p. fragment_error cdc p w = None) ps
     \<Longrightarrow> \<exists>rc. readResultFiles cdc ps acc w = Inr rc
            \<and> elems rc = elems acc @ concat (map (\<lambda>p. fragment_results cdc p w) ps)"
proof (induction ps arbitrary: acc)
  case Nil
  then show ?case by simp
next
  case (Cons p ps)
  obtain bs e where rd: "os_ReadFile p w = (bs, e)" by (cases "os_ReadFile p w")
  obtain sw je where um: "Unmarshal cdc bs = (sw, je)" by (cases "Unmarshal cdc bs")
  from Cons.prems rd um have e: "e = None" and je: "je = None"
    by (auto simp: fragment_error_def split: option.splits)
  from Cons.prems have "list_all (\<lambda>p. fragment_error cdc p w = None) ps" by simp
  from Cons.IH [OF this, of "go_append acc (Results sw)"]
  obtain rc where rc: "readResultFiles cdc ps (go_append acc (Results sw)) w = Inr rc"
    "elems rc = elems (go_append acc (Results sw))
                  @ concat (map (\<lambda>p. fragment_results cdc p w) ps)"
    by blast
  have step: "readResultFiles cdc (p # ps) acc w
                = readResultFiles cdc ps (go_append acc (Results sw)) w"
    by (simp add: rd um e je)
  have fr: "fragment_results cdc p w = elems (Results sw)"
    by (simp add: fragment_results_def rd um)
  show ?case
    unfolding step using rc by (simp add: fr)
qed

lemma batch_in_order:
  assumes "list_all (\<lambda>p. fragment_error cdc p w = None) (resultFilesPaths result)"
  shows "batch cdc result w
           = concat (map (\<lambda>p. fragment_results cdc p w) (resultFilesPaths result))"
proof -
  from readResultFiles_all_ok [OF assms, of None]
  obtain rc where "readResultFiles cdc (resultFilesPaths result) None w = Inr rc"
    and "elems rc = elems None @ concat (map (\<lambda>p. fragment_results cdc p w) (resultFilesPaths result))"
    by blast
  then show ?thesis by (simp add: batch_def elems_def)
qed

lemma go_append_nothing: "elems t = [] \<Longrightarrow> go_append s t = s"
  by (cases s) (simp_all add: go_append_def)

lemma readResultFiles_first_failure:
  "p \<in> set ps \<Longrightarrow> fragment_error cdc p w \<noteq> None
     \<Longrightarrow> \<exists>q e. q \<in> set ps \<and> fragment_error cdc q w = Some e
                \<and> readResultFiles cdc ps acc w = Inl e"
proof (induction ps arbitrary: acc)
  case Nil
  then show ?case by simp
next
  case (Cons a ps)
  show ?case
  proof (cases "fragment_error cdc a w")
    case (Some e)
    then have "readResultFiles cdc (a # ps) acc w = Inl e"
      by (auto simp: fragment_error_def split: prod.splits option.splits)
    with Some show ?thesis by auto
  next
    case None
    with Cons.prems have "p \<in> set ps" by auto
    from Cons.IH [OF this Cons.prems(2)]
    obtain q e where q: "q \<in> set ps" "fragment_error cdc q w = Some e"
      "readResultFiles cdc ps (go_append acc (Results (fst (Unmarshal cdc (fst (os_ReadFile a w)))))) w
         = Inl e"
      by blast
    from None have "readResultFiles cdc (a # ps) acc w
        = readResultFiles cdc ps (go_append acc (Results (fst (Unmarshal cdc (fst (os_ReadFile a w)))))) w"
      by (auto simp: fragment_error_def split: prod.splits option.splits)
    with q show ?thesis by auto
  qed
qed


lemma load_decode:
  assumes "os_ReadFile (getDataFilePath gh) w = (b, None)" and "b \<noteq> []"
  shows "loadAndMarshalResultsFile cdc gh w =
           ((fst (Unmarshal cdc b), b, map_option JsonError (snd (Unmarshal cdc b))), w)"
  using assms by (simp add: loadAndMarshalResultsFile_def split: prod.splits)

lemma store_writable_after_load:
  assumes "fault w (getDataFilePath gh) OpOpen = None" "fault w (getDataFilePath gh) OpWrite = None"
    "fault w (getDataFilePath gh) OpClose = None"
    "case files w (getDataFilePath gh) of Some (Dir es) \<Rightarrow> False | _ \<Rightarrow> True"
  shows "os_WriteFile (getDataFilePath gh) b (snd (loadAndMarshalResultsFile cdc gh w))
           = (None, (snd (loadAndMarshalResultsFile cdc gh w))
                       \<lparr>files := (files w)(getDataFilePath gh \<mapsto> File b)\<rparr>)"
  using os_WriteFile_ok [of "snd (loadAndMarshalResultsFile cdc gh w)" "getDataFilePath gh" b] assms
  by (simp add: load_world)


text \<open>The error load returns, case by case: the error of the read, file-not-found
  included; none for an empty file; that of the decoder otherwise.\<close>

lemma load_error_cases:
  "load_error cdc gh w =
     (case os_ReadFile (getDataFilePath gh) w of
        (b, Some e) \<Rightarrow> Some (OsError e)
      | (b, None) \<Rightarrow> if b = [] then None else map_option JsonError (snd (Unmarshal cdc b)))"
  by (auto simp: load_error_def loadAndMarshalResultsFile_def os_IsNotExist_def os_ReadFile_def
      split: prod.splits option.splits node.splits)

section \<open>The command summary: auxiliary facts\<close>

lemma file_Close_fault: "fault w' = fault w \<Longrightarrow> file_Close h w' = file_Close h w"
  by (simp add: file_Close_def split: option.splits)

lemma os_OpenFile_fault: "fault (snd (os_OpenFile p flags w)) = fault w"
  by (simp add: os_OpenFile_def split: option.splits node.splits)

lemma file_Write_fault: "fault (snd (file_Write h b w)) = fault w"
  by (simp add: file_Write_def split: option.splits node.splits)

lemma os_Remove_fault: "fault (snd (os_Remove p w)) = fault w"
  by (simp add: os_Remove_def split: option.splits node.splits list.splits)

lemma os_Remove_log_write:
  "files (snd (os_Remove p (log_write l a w))) = files (snd (os_Remove p w))"
  by (simp add: os_Remove_def split: option.splits node.splits list.splits)

lemma os_OpenFile_handle:
  "fault w' = fault w \<Longrightarrow> files w' = files w
     \<Longrightarrow> fst (os_OpenFile p flags w') = fst (os_OpenFile p flags w)"
  by (simp add: os_OpenFile_def split: option.splits node.splits)

lemma deferred_Close_returned:
  "(\<And>m. err \<noteq> Some (Panic m)) \<Longrightarrow> deferred_Close file (err, w) = (map_option OsError (file_Close file w), w)"
  by (cases err) (auto simp: deferred_Close_def split: error.splits)

lemma getSectionMarkdownContent_readable:
  assumes "section_readable section w"
  shows "getSectionMarkdownContent section w = Inr (section_content section w)"
proof (cases "files w (sectionFilepath section w)")
  case None
  with assms show ?thesis
    by (simp add: getSectionMarkdownContent_def section_content_def section_readable_def
        sectionFilepath_def os_Stat_def os_IsNotExist_def)
next
  case (Some n)
  with assms obtain b where "n = File b"
    by (cases n) (auto simp: section_readable_def)
  with Some assms show ?thesis
    by (simp add: getSectionMarkdownContent_def section_content_def section_readable_def
        sectionFilepath_def os_Stat_def os_IsNotExist_def os_ReadFile_def)
qed

lemma invokeSections_steps:
  "invokeSections col markdownSections w = sections_done col w"
  by (simp add: markdownSections_def sections_done_def section_step_def
      split: prod.splits option.splits)

lemma combine_readable:
  assumes "list_all (\<lambda>section. section_readable section w) markdownSections"
  shows "combineMarkdownFiles w
           = Inr (section_content Security w @ section_content BuildInfo w
                    @ section_content Upload w)"
  using assms
  by (simp add: combineMarkdownFiles_def markdownSections_def getSectionMarkdownContent_readable)

section \<open>The tree: auxiliary facts\<close>

lemma addSegments_twice: "addSegments ss (addSegments ss t) = addSegments ss t"
  by (induction ss t rule: addSegments.induct) simp_all

text \<open>A path whose insertion changes nothing stays so when another path is inserted.\<close>

lemma addSegments_present:
  "addSegments ss t = t \<Longrightarrow> addSegments ss (addSegments ts t) = addSegments ts t"
proof (induction ts t arbitrary: ss rule: addSegments.induct)
  case (1 ts)
  then show ?case by simp
next
  case (2 s ss')
  then show ?case by (cases ss) simp_all
next
  case (3 s ss' k ks rest)
  show ?case
  proof (cases ss)
    case Nil
    then show ?thesis by simp
  next
    case (Cons a as)
    with "3.prems" have here: "k = a \<Longrightarrow> addSegments as ks = ks"
      and there: "k \<noteq> a \<Longrightarrow> addSegments (a # as) rest = rest"
      by (auto split: if_splits)
    show ?thesis
    proof (cases "k = s")
      case True
      with Cons here there "3.IH"(1) [of as] show ?thesis by auto
    next
      case False
      with Cons here there "3.IH"(2) [of "a # as"] show ?thesis by auto
    qed
  qed
qed

text \<open>The example of the spec: two target paths under one root segment.\<close>

lemma render_two_paths:
  "AddFile ''a/c/y.txt'' (AddFile ''a/b/x.txt'' NewFileTree)
     = [PathTreeNode ''a''
          [PathTreeNode ''b'' [PathTreeNode ''x.txt'' []],
           PathTreeNode ''c'' [PathTreeNode ''y.txt'' []]]]"
  "tree_String (AddFile ''a/c/y.txt'' (AddFile ''a/b/x.txt'' NewFileTree))
     = ''a\<newline>  b\<newline>    x.txt\<newline>  c\<newline>    y.txt\<newline>''"
  by (simp_all add: AddFile_def NewFileTree_def tree_String_def numeral_2_eq_2)

section \<open>The concrete inputs evaluated\<close>

lemma ex_plain: "plain_result ex_r1" "plain_result ex_r2" "plain_result ex_r3"
  by (simp_all add: ex_r1_def ex_r2_def ex_r3_def plain_result_def plain_char_def dq_def)

lemma ex_decode:
  "ref_Unmarshal ex_fragment1 = (\<lparr>Results = Some [ex_r1]\<rparr>, None)"
  "ref_Unmarshal ex_fragment2 = (\<lparr>Results = Some [ex_r2, ex_r3]\<rparr>, None)"
  using ref_roundtrip [of "\<lparr>Results = Some [ex_r1]\<rparr>"]
    ref_roundtrip [of "\<lparr>Results = Some [ex_r2, ex_r3]\<rparr>"]
  by (simp_all add: ex_fragment1_def ex_fragment2_def ex_plain elems_def)

lemma not_json: "ref_Unmarshal ''not json'' = (\<lparr>Results = None\<rparr>, Some SyntaxError)"
  by (simp add: ref_Unmarshal_def expect_def doc_open_def)

lemma ex_store_path: "getDataFilePath ex_gh = ex_store"
  by (simp add: getDataFilePath_def ex_gh_def newGithubActionSummary_def homeDir_def
      path_Join_def ex_store_def)


lemma ex_paths:
  assumes "environ w = ex_environ"
  shows "buildInfoPath w = ex_build_info_dir"
    and "finalMarkdownPath w = ex_final_markdown"
    and "sectionFilepath Security w = ex_security_markdown"
    and "sectionFilepath BuildInfo w = ''/out/jfrog-command-summary/build-info/markdown.md''"
    and "sectionFilepath Upload w = ex_upload_markdown"
proof -
  have env: "os_Getenv SummaryOutputDirPathEnv w = ''/out''"
    by (simp add: os_Getenv_def assms ex_environ_def)
  show "buildInfoPath w = ex_build_info_dir"
    by (simp add: buildInfoPath_def env JfrogCliSummaryDir_def BuildInfo_def path_Join_def
        ex_build_info_dir_def)
  show "finalMarkdownPath w = ex_final_markdown"
    by (simp add: finalMarkdownPath_def env JfrogCliSummaryDir_def MarkdownFileName_def
        path_Join_def ex_final_markdown_def)
  show "sectionFilepath Security w = ex_security_markdown"
    by (simp add: sectionFilepath_def env JfrogCliSummaryDir_def MarkdownFileName_def
        Security_def path_Join_def ex_security_markdown_def)
  show "sectionFilepath BuildInfo w = ''/out/jfrog-command-summary/build-info/markdown.md''"
    by (simp add: sectionFilepath_def env JfrogCliSummaryDir_def MarkdownFileName_def
        BuildInfo_def path_Join_def)
  show "sectionFilepath Upload w = ex_upload_markdown"
    by (simp add: sectionFilepath_def env JfrogCliSummaryDir_def MarkdownFileName_def
        Upload_def path_Join_def ex_upload_markdown_def)
qed

lemma ex_environs:
  "environ ex_out_empty = ex_environ" "environ ex_out_stale = ex_environ"
  "environ ex_out_build_info = ex_environ" "environ ex_write_refused = ex_environ"
  "environ ex_close_fails = ex_environ" "environ ex_create_refused = ex_environ"
  by (simp_all add: ex_out_empty_def ex_out_stale_def ex_out_build_info_def
      ex_write_refused_def ex_close_fails_def ex_create_refused_def)

lemma ex_server:
  "environ w = ex_environ \<Longrightarrow> ShouldGenerateSummary w"
  "extractServerUrlAndVersion ex_col c w = (Inr (''https://acme.jfrog.io/'', 7), w)"
  "extractServerUrlAndVersion ex_col_quiet c w = (Inr (''https://acme.jfrog.io/'', 7), w)"
  "InitMarkdownGenerationValues ex_col u v w = (None, w)"
  "InitMarkdownGenerationValues ex_col_quiet u v w = (None, w)"
  by (simp_all add: ShouldGenerateSummary_def os_Getenv_def ex_environ_def
      extractServerUrlAndVersion_def createPlatformDetailsByFlags_def ex_col_def
      ex_col_quiet_def)

lemma ex_security_fails:
  "invokeSectionMarkdownGeneration ex_col Security w
     = (Some (Errorf ''error generating security markdown: %w'' [FErr (ErrorNew ''no security data'')]), w)"
  "invokeSectionMarkdownGeneration ex_col_quiet Security w
     = (Some (Errorf ''error generating security markdown: %w'' [FErr (ErrorNew ''no security data'')]), w)"
  by (simp_all add: invokeSectionMarkdownGeneration_def generateSecurityMarkdown_def ex_col_def
      ex_col_quiet_def)

lemma ex_build_info_quiet:
  "invokeSectionMarkdownGeneration ex_col BuildInfo w
     = (None, w\<lparr>ScanResultsMapping := Map.empty\<rparr>)"
  "invokeSectionMarkdownGeneration ex_col_quiet BuildInfo w
     = (None, w\<lparr>ScanResultsMapping := Map.empty\<rparr>)"
  by (simp_all add: invokeSectionMarkdownGeneration_def generateBuildInfoMarkdown_def
      BuildInfo_def Security_def ex_col_def ex_col_quiet_def ex_quiet_summary_def)

lemma ex_upload_runs:
  assumes "environ w = ex_environ" "fault w ex_build_info_dir OpStat = None"
    "files w ex_build_info_dir = None"
  shows "invokeSectionMarkdownGeneration ex_col Upload w
           = (None, w\<lparr>files := (files w)(ex_upload_markdown \<mapsto> File ''# Upload\<newline>'')\<rparr>)"
    and "invokeSectionMarkdownGeneration ex_col_quiet Upload w = (None, w)"
proof -
  have "os_IsNotExist (os_Stat (buildInfoPath w) w)"
    using assms by (simp add: ex_paths os_IsNotExist_def os_Stat_def)
  then have should: "shouldGenerateUploadSummary w = (True, None)"
    by (simp add: shouldGenerateUploadSummary_def buildInfoPath_def Let_def)
  show "invokeSectionMarkdownGeneration ex_col Upload w
           = (None, w\<lparr>files := (files w)(ex_upload_markdown \<mapsto> File ''# Upload\<newline>'')\<rparr>)"
    by (simp add: invokeSectionMarkdownGeneration_def generateUploadMarkdown_def should
        Upload_def BuildInfo_def Security_def ex_col_def ex_upload_summary_def)
  show "invokeSectionMarkdownGeneration ex_col_quiet Upload w = (None, w)"
    by (simp add: invokeSectionMarkdownGeneration_def generateUploadMarkdown_def should
        Upload_def BuildInfo_def Security_def ex_col_def ex_col_quiet_def ex_quiet_summary_def)
qed

text \<open>The three rounds on the concrete output directories.\<close>

lemma ex_sections_done:
  assumes "environ w = ex_environ" "fault w = no_fault" "files w ex_build_info_dir = None"
  shows "files (sections_done ex_col w)
           = (files w)(ex_upload_markdown \<mapsto> File ''# Upload\<newline>'')"
    and "files (sections_done ex_col_quiet w) = files w"
    and "fault (sections_done ex_col w) = no_fault"
    and "fault (sections_done ex_col_quiet w) = no_fault"
    and "environ (sections_done ex_col w) = ex_environ"
    and "environ (sections_done ex_col_quiet w) = ex_environ"
    and "\<not> section_failed ex_col Upload
             (section_step ex_col BuildInfo (section_step ex_col Security w))"
proof -
  let ?w2 = "section_step ex_col BuildInfo (section_step ex_col Security w)"
  let ?q2 = "section_step ex_col_quiet BuildInfo (section_step ex_col_quiet Security w)"
  have w2: "environ ?w2 = ex_environ" "fault ?w2 ex_build_info_dir OpStat = None"
    "files ?w2 ex_build_info_dir = None" "files ?w2 = files w" "fault ?w2 = no_fault"
    using assms
    by (simp_all add: section_step_def ex_security_fails ex_build_info_quiet no_fault_def)
  have q2: "environ ?q2 = ex_environ" "fault ?q2 ex_build_info_dir OpStat = None"
    "files ?q2 ex_build_info_dir = None" "files ?q2 = files w" "fault ?q2 = no_fault"
    using assms
    by (simp_all add: section_step_def ex_security_fails ex_build_info_quiet no_fault_def)
  show "files (sections_done ex_col w)
           = (files w)(ex_upload_markdown \<mapsto> File ''# Upload\<newline>'')"
    and "fault (sections_done ex_col w) = no_fault"
    and "environ (sections_done ex_col w) = ex_environ"
    unfolding sections_done_def
    by (simp_all add: section_step_def [of _ Upload] ex_upload_runs(1) [OF w2(1,2,3)] w2)
  show "\<not> section_failed ex_col Upload ?w2"
    by (simp add: section_failed_def ex_upload_runs(1) [OF w2(1,2,3)])
  show "files (sections_done ex_col_quiet w) = files w"
    and "fault (sections_done ex_col_quiet w) = no_fault"
    and "environ (sections_done ex_col_quiet w) = ex_environ"
    unfolding sections_done_def
    by (simp_all add: section_step_def [of _ Upload] ex_upload_runs(2) [OF q2(1,2,3)] q2)
qed

section \<open>The claims\<close>

text \<open>
  C1. A sequence of append calls on the result store, then load: load returns what was
  stored before, followed by the batch of every call, in the order of the calls
  (\<open>appended\<close> follows the calls one by one). When no call names the store file itself
  as a fragment, the batches are those the fragment files give at the start; and a batch
  is the results of its fragment files, in the order of the files and of the results in
  each. A call whose fragments cannot be read appends nothing. The statement needs the
  JSON library to keep its contract, the system to let the store file be read and
  written, and the store file to be missing, empty or valid at the start.
\<close>

theorem append_then_load_concatenates:
  assumes "codec_ok cdc" and "store_accessible gh w" and "store_valid cdc gh w"
  shows "stored cdc gh (AppendResults cdc gh calls w) = stored cdc gh w @ appended cdc gh calls w
    \<and> (list_all (\<lambda>result. getDataFilePath gh \<notin> set (resultFilesPaths result)) calls \<longrightarrow>
         appended cdc gh calls w = concat (map (\<lambda>result. batch cdc result w) calls))
    \<and> (list_all (\<lambda>p. fragment_error cdc p w = None) (resultFilesPaths result) \<longrightarrow>
         batch cdc result w
           = concat (map (\<lambda>p. fragment_results cdc p w) (resultFilesPaths result)))"
proof (intro conjI impI)
  show "stored cdc gh (AppendResults cdc gh calls w) = stored cdc gh w @ appended cdc gh calls w"
    by (rule AppendResults_concat [OF assms])
  show "appended cdc gh calls w = concat (map (\<lambda>result. batch cdc result w) calls)"
    if "list_all (\<lambda>result. getDataFilePath gh \<notin> set (resultFilesPaths result)) calls"
    using that by (rule appended_concat)
  show "batch cdc result w
           = concat (map (\<lambda>p. fragment_results cdc p w) (resultFilesPaths result))"
    if "list_all (\<lambda>p. fragment_error cdc p w = None) (resultFilesPaths result)"
    using that by (rule batch_in_order)
qed

theorem append_then_load_concatenates_witness:
  "stored ref_codec ex_gh
     (AppendResults ref_codec ex_gh
        [fragments [''/tmp/f1.json''], None, fragments [''/tmp/bad.json''],
         fragments [''/tmp/f2.json'']]
        ex_fresh)
   = [ex_r1, ex_r2, ex_r3]"
proof -
  let ?calls = "[fragments [''/tmp/f1.json''], None, fragments [''/tmp/bad.json''],
                 fragments [''/tmp/f2.json'']]"
  have acc: "store_accessible ex_gh ex_fresh"
    by (simp add: store_accessible_def ex_store_path ex_fresh_def no_fault_def ex_store_def)
  have val: "store_valid ref_codec ex_gh ex_fresh"
    by (simp add: store_valid_def ex_store_path ex_fresh_def ex_store_def)
  have apart: "list_all (\<lambda>result. getDataFilePath ex_gh \<notin> set (resultFilesPaths result)) ?calls"
    by (simp add: ex_store_path ex_store_def resultFilesPaths_def fragments_def)
  have before: "stored ref_codec ex_gh ex_fresh = []"
    using stored_accessible [OF acc, of ref_codec]
    by (simp add: ex_store_path ex_fresh_def ex_store_def)
  have batches: "concat (map (\<lambda>result. batch ref_codec result ex_fresh) ?calls)
                   = [ex_r1, ex_r2, ex_r3]"
    by (simp add: batch_def resultFilesPaths_def fragments_def os_ReadFile_def ex_fresh_def
        no_fault_def ref_codec_def ex_decode not_json go_append_def elems_def)
  from append_then_load_concatenates [OF ref_codec_ok acc val, of ?calls] apart before batches
  show ?thesis by simp
qed

text \<open>
  C2, as claimed: a section whose generation failed contributes the empty string. The
  combined document is read from the section files on disk, whoever wrote them. Here an
  earlier run left a security markdown file and the security summary cannot be created
  this time: the generator fails, and the file's content still opens the combined
  document, where the claim promises the upload section alone.
\<close>

theorem failed_section_file_is_combined:
  "section_failed ex_col Security ex_out_stale
   \<and> combineMarkdownFiles (invokeSections ex_col markdownSections ex_out_stale)
       = Inr ''# Security\<newline># Upload\<newline>''
   \<and> claimed_document ex_col ex_out_stale = ''# Upload\<newline>''"
proof -
  let ?w3 = "sections_done ex_col ex_out_stale"
  have start: "environ ex_out_stale = ex_environ" "fault ex_out_stale = no_fault"
    "files ex_out_stale ex_build_info_dir = None"
    "files ex_out_stale = [ex_security_markdown \<mapsto> File ''# Security\<newline>'']"
    by (simp_all add: ex_out_stale_def ex_out_empty_def ex_security_markdown_def
        ex_build_info_dir_def)
  have w3: "files ?w3 = [ex_security_markdown \<mapsto> File ''# Security\<newline>'',
                         ex_upload_markdown \<mapsto> File ''# Upload\<newline>'']"
    "fault ?w3 = no_fault" "environ ?w3 = ex_environ"
    using ex_sections_done(1,3,5) [OF start(1,2,3)] start(4) by simp_all
  have content: "section_content Security ?w3 = ''# Security\<newline>''"
    "section_content BuildInfo ?w3 = []" "section_content Upload ?w3 = ''# Upload\<newline>''"
    by (simp_all add: section_content_def ex_paths [OF w3(3)] w3(1) ex_security_markdown_def
        ex_upload_markdown_def)
  have "list_all (\<lambda>section. section_readable section ?w3) markdownSections"
    by (simp add: markdownSections_def section_readable_def ex_paths [OF w3(3)] w3(1,2)
        no_fault_def ex_security_markdown_def ex_upload_markdown_def)
  from combine_readable [OF this]
  have combined: "combineMarkdownFiles (invokeSections ex_col markdownSections ex_out_stale)
                    = Inr ''# Security\<newline># Upload\<newline>''"
    by (simp add: invokeSections_steps content)
  have failed: "section_failed ex_col Security ex_out_stale"
    "\<not> section_failed ex_col BuildInfo (section_step ex_col Security ex_out_stale)"
    by (simp_all add: section_failed_def ex_security_fails ex_build_info_quiet)
  have claimed: "claimed_document ex_col ex_out_stale = ''# Upload\<newline>''"
    using content failed ex_sections_done(7) [OF start(1,2,3)]
    by (simp add: claimed_document_def Let_def sections_done_def)
  from failed(1) combined claimed show ?thesis by simp
qed

text \<open>
  C2, amended: when configuration, the retrieval of the server's URL and version and the
  initialisation of the summary values succeed, the three generators run in the order
  security, build-info, upload, each in the world the one before left; an error of one is
  logged as a warning and the next still runs. If every section markdown file present
  afterwards can be read, the combined document is the concatenation, in that order, of
  what the three section files then hold, an absent file counting as the empty string
  (so a section that failed contributes what its file holds, nothing when it has none),
  and finalize returns what saving that document returns.
\<close>

theorem combined_report_is_concatenation:
  assumes "ShouldGenerateSummary w"
    and "extractServerUrlAndVersion col c w = (Inr (serverUrl, majorVersion), w1)"
    and "InitMarkdownGenerationValues col serverUrl majorVersion w1 = (None, w2)"
    and "list_all (\<lambda>section. section_readable section (sections_done col w2)) markdownSections"
  shows "invokeSections col markdownSections w2 = sections_done col w2
     \<and> combineMarkdownFiles (sections_done col w2)
         = Inr (section_content Security (sections_done col w2)
                  @ section_content BuildInfo (sections_done col w2)
                  @ section_content Upload (sections_done col w2))
     \<and> GenerateSummaryMarkdown col c w
         = saveMarkdownToFileSystem
             (section_content Security (sections_done col w2)
                @ section_content BuildInfo (sections_done col w2)
                @ section_content Upload (sections_done col w2))
             (sections_done col w2)"
  using assms(1,2,3) combine_readable [OF assms(4)]
  by (simp add: GenerateSummaryMarkdown_def invokeSections_steps Let_def)

theorem combined_report_is_concatenation_witness:
  "fst (GenerateSummaryMarkdown ex_col [] ex_out_stale) = None
   \<and> files (snd (GenerateSummaryMarkdown ex_col [] ex_out_stale)) ex_final_markdown
       = Some (File ''# Security\<newline># Upload\<newline>'')"
proof -
  let ?w3 = "sections_done ex_col ex_out_stale"
  have start: "environ ex_out_stale = ex_environ" "fault ex_out_stale = no_fault"
    "files ex_out_stale ex_build_info_dir = None"
    "files ex_out_stale = [ex_security_markdown \<mapsto> File ''# Security\<newline>'']"
    by (simp_all add: ex_out_stale_def ex_out_empty_def ex_security_markdown_def
        ex_build_info_dir_def)
  have w3: "files ?w3 = [ex_security_markdown \<mapsto> File ''# Security\<newline>'',
                         ex_upload_markdown \<mapsto> File ''# Upload\<newline>'']"
    "fault ?w3 = no_fault" "environ ?w3 = ex_environ"
    using ex_sections_done(1,3,5) [OF start(1,2,3)] start(4) by simp_all
  have content: "section_content Security ?w3 = ''# Security\<newline>''"
    "section_content BuildInfo ?w3 = []" "section_content Upload ?w3 = ''# Upload\<newline>''"
    by (simp_all add: section_content_def ex_paths [OF w3(3)] w3(1) ex_security_markdown_def
        ex_upload_markdown_def)
  have readable: "list_all (\<lambda>section. section_readable section ?w3) markdownSections"
    by (simp add: markdownSections_def section_readable_def ex_paths [OF w3(3)] w3(1,2)
        no_fault_def ex_security_markdown_def ex_upload_markdown_def)
  from combined_report_is_concatenation [OF ex_server(1) [OF start(1)] ex_server(2) ex_server(4)
      readable, of "[]"]
  have "GenerateSummaryMarkdown ex_col [] ex_out_stale
          = saveMarkdownToFileSystem ''# Security\<newline># Upload\<newline>'' ?w3"
    by (simp add: content)
  then show ?thesis
    by (simp add: saveMarkdownToFileSystem_def ex_paths [OF w3(3)] os_Create_def os_OpenFile_def
        file_Write_def file_Close_def deferred_Close_def w3 no_fault_def ex_final_markdown_def
        ex_security_markdown_def ex_upload_markdown_def)
qed

text \<open>
  C3. When the system reports the build-info directory as existing with at least one
  entry, the upload generator returns no error and adds only the debug line to the log,
  whatever the collaborators are: the upload summary is neither created nor asked for its
  markdown, and no file changes. More generally, unless the directory is reported missing
  or is read as empty, the world after the call is that skipped world; and when it is
  missing or empty the upload summary is created and generates.
\<close>

theorem upload_runs_only_without_build_info:
  "(\<not> os_IsNotExist (os_Stat (buildInfoPath w) w)
      \<and> os_ReadDir (buildInfoPath w) w = (e # es, None)
     \<longrightarrow> generateUploadMarkdown col w = (None, upload_skipped w)
         \<and> invokeSectionMarkdownGeneration col Upload w = (None, upload_skipped w))
   \<and> (\<not> (os_IsNotExist (os_Stat (buildInfoPath w) w)
           \<or> os_ReadDir (buildInfoPath w) w = ([], None))
        \<longrightarrow> snd (generateUploadMarkdown col w) = upload_skipped w)
   \<and> (os_IsNotExist (os_Stat (buildInfoPath w) w)
          \<or> os_ReadDir (buildInfoPath w) w = ([], None)
        \<longrightarrow> generateUploadMarkdown col w
              = (case NewUploadSummary col w of
                   (Inl err, w1) \<Rightarrow>
                     (Some (Errorf ''error generating upload markdown: %w'' [FErr err]), w1)
                 | (Inr uploadSummary, w1) \<Rightarrow> GenerateMarkdown uploadSummary w1))"
proof (intro conjI impI)
  assume h: "\<not> os_IsNotExist (os_Stat (buildInfoPath w) w)
      \<and> os_ReadDir (buildInfoPath w) w = (e # es, None)"
  then have "shouldGenerateUploadSummary w = (False, None)"
    by (simp add: shouldGenerateUploadSummary_def buildInfoPath_def Let_def)
  then show "generateUploadMarkdown col w = (None, upload_skipped w)"
    by (simp add: generateUploadMarkdown_def upload_skipped_def)
  then show "invokeSectionMarkdownGeneration col Upload w = (None, upload_skipped w)"
    by (simp add: invokeSectionMarkdownGeneration_def Upload_def Security_def BuildInfo_def)
next
  assume h: "\<not> (os_IsNotExist (os_Stat (buildInfoPath w) w)
           \<or> os_ReadDir (buildInfoPath w) w = ([], None))"
  obtain ds err where rd: "os_ReadDir (buildInfoPath w) w = (ds, err)"
    by (cases "os_ReadDir (buildInfoPath w) w")
  with h have "err \<noteq> None \<or> ds \<noteq> []" by auto
  with h rd have "snd (shouldGenerateUploadSummary w) \<noteq> None \<or> \<not> fst (shouldGenerateUploadSummary w)"
    by (cases err) (auto simp: shouldGenerateUploadSummary_def buildInfoPath_def Let_def)
  then show "snd (generateUploadMarkdown col w) = upload_skipped w"
    by (auto simp: generateUploadMarkdown_def upload_skipped_def split: prod.splits)
next
  assume h: "os_IsNotExist (os_Stat (buildInfoPath w) w)
          \<or> os_ReadDir (buildInfoPath w) w = ([], None)"
  then have "shouldGenerateUploadSummary w = (True, None)"
    by (auto simp: shouldGenerateUploadSummary_def buildInfoPath_def Let_def)
  then show "generateUploadMarkdown col w
              = (case NewUploadSummary col w of
                   (Inl err, w1) \<Rightarrow>
                     (Some (Errorf ''error generating upload markdown: %w'' [FErr err]), w1)
                 | (Inr uploadSummary, w1) \<Rightarrow> GenerateMarkdown uploadSummary w1)"
    by (simp add: generateUploadMarkdown_def)
qed

theorem upload_runs_only_without_build_info_witness:
  "files ex_out_build_info ex_build_info_dir = Some (Dir [''markdown.md''])
   \<and> generateUploadMarkdown ex_col ex_out_build_info = (None, upload_skipped ex_out_build_info)
   \<and> files (snd (generateUploadMarkdown ex_col ex_out_build_info)) ex_upload_markdown = None
   \<and> files ex_out_empty ex_build_info_dir = None
   \<and> files (snd (generateUploadMarkdown ex_col ex_out_empty)) ex_upload_markdown
       = Some (File ''# Upload\<newline>'')"
proof -
  have p1: "buildInfoPath ex_out_build_info = ex_build_info_dir"
    "buildInfoPath ex_out_empty = ex_build_info_dir"
    by (simp_all add: ex_paths ex_environs)
  have there: "\<not> os_IsNotExist (os_Stat (buildInfoPath ex_out_build_info) ex_out_build_info)
      \<and> os_ReadDir (buildInfoPath ex_out_build_info) ex_out_build_info
           = (''markdown.md'' # [], None)"
    unfolding p1
    by (simp add: os_IsNotExist_def os_Stat_def os_ReadDir_def ex_out_build_info_def
        ex_out_empty_def no_fault_def)
  have missing: "os_IsNotExist (os_Stat (buildInfoPath ex_out_empty) ex_out_empty)"
    unfolding p1
    by (simp add: os_IsNotExist_def os_Stat_def ex_out_empty_def no_fault_def)
  have skipped: "generateUploadMarkdown ex_col ex_out_build_info
                   = (None, upload_skipped ex_out_build_info)"
    using upload_runs_only_without_build_info [of ex_out_build_info "''markdown.md''" "[]" ex_col]
      there by blast
  have ran: "generateUploadMarkdown ex_col ex_out_empty
      = (case NewUploadSummary ex_col ex_out_empty of
           (Inl err, w1) \<Rightarrow> (Some (Errorf ''error generating upload markdown: %w'' [FErr err]), w1)
         | (Inr uploadSummary, w1) \<Rightarrow> GenerateMarkdown uploadSummary w1)"
    using upload_runs_only_without_build_info [of ex_out_empty "''x''" "[]" ex_col]
      missing by blast
  show ?thesis
    unfolding skipped ran
    by (simp add: upload_skipped_def log_write_def ex_out_build_info_def ex_out_empty_def
        ex_col_def ex_upload_summary_def ex_upload_markdown_def ex_build_info_dir_def)
qed

text \<open>
  C4, as claimed: append with an empty batch leaves the store file byte-identical whatever
  its state. On a machine where the store file does not exist, the call with no result
  (nil, so no fragment is read) succeeds and creates the file, with the encoding of the
  empty wrapper in it.
\<close>

theorem append_nothing_creates_store:
  "files ex_fresh (getDataFilePath ex_gh) = None
   \<and> batch ref_codec None ex_fresh = []
   \<and> fst (AppendResult ref_codec ex_gh None ex_fresh) = None
   \<and> files (snd (AppendResult ref_codec ex_gh None ex_fresh)) (getDataFilePath ex_gh)
       = Some (File (''{\<newline>  '' @ [CHR 0x22] @ ''results'' @ [CHR 0x22] @ '': null\<newline>}''))"
  by (simp add: AppendResult_def batch_def resultFilesPaths_def loadAndMarshalResultsFile_def
      os_ReadFile_def os_IsNotExist_def os_WriteFile_def os_OpenFile_def file_Write_def
      file_Close_def log_write_def ex_store_path ex_fresh_def no_fault_def ex_store_def
      ref_codec_def ref_MarshalIndent_def go_append_def elems_def enc_slice_def doc_open_def
      doc_close_def quoted_def dq_def)

text \<open>
  C4, amended: on a store file that holds what an earlier append wrote (the indented
  encoding of a wrapper of representable results), append with an empty batch writes the
  same bytes again, and the file is byte-identical after the call. On a missing or empty
  store file the call is not a no-op: it succeeds and leaves the file with the non-empty
  encoding of the empty wrapper. Both need the JSON library to keep its contract and the
  system to let the store file be read and written.
\<close>

theorem append_nothing_keeps_written_store:
  assumes ok: "codec_ok cdc" and acc: "store_accessible gh w"
    and frag: "readResultFiles cdc (resultFilesPaths result) None w = Inr rc"
    and empty: "elems rc = []"
  shows "(list_all (representable cdc) (elems (Results W)) \<and> MarshalIndent cdc W = Inr b
            \<and> files w (getDataFilePath gh) = Some (File b)
          \<longrightarrow> fst (AppendResult cdc gh result w) = None
              \<and> files (snd (AppendResult cdc gh result w)) (getDataFilePath gh) = Some (File b))
     \<and> (files w (getDataFilePath gh) = None \<or> files w (getDataFilePath gh) = Some (File [])
          \<longrightarrow> (\<exists>b'. MarshalIndent cdc \<lparr>Results = None\<rparr> = Inr b' \<and> b' \<noteq> []
                 \<and> fst (AppendResult cdc gh result w) = None
                 \<and> files (snd (AppendResult cdc gh result w)) (getDataFilePath gh)
                     = Some (File b')))"
proof (intro conjI impI)
  let ?P = "getDataFilePath gh"
  from acc have wr: "fault w ?P OpOpen = None" "fault w ?P OpWrite = None"
    "fault w ?P OpClose = None" "case files w ?P of Some (Dir es) \<Rightarrow> False | _ \<Rightarrow> True"
    and rdf: "fault w ?P OpRead = None"
    by (simp_all add: store_accessible_def)
  {
    assume h: "list_all (representable cdc) (elems (Results W)) \<and> MarshalIndent cdc W = Inr b
            \<and> files w ?P = Some (File b)"
    with ok obtain b0 where b0: "MarshalIndent cdc W = Inr b0" "b0 \<noteq> []"
      "Unmarshal cdc b0 = (W, None)"
      unfolding codec_ok_def by blast
    with h have b: "b \<noteq> []" "Unmarshal cdc b = (W, None)" by simp_all
    from h rdf have rd: "os_ReadFile ?P w = (b, None)" by (simp add: os_ReadFile_def)
    have ld: "loadAndMarshalResultsFile cdc gh w = ((W, b, None), w)"
      using load_decode [OF rd b(1), of cdc] b(2) by simp
    have wrote: "os_WriteFile ?P b w = (None, w\<lparr>files := (files w)(?P \<mapsto> File b)\<rparr>)"
      using store_writable_after_load [OF wr, of b cdc] ld by simp
    have "AppendResult cdc gh result w = (None, w\<lparr>files := (files w)(?P \<mapsto> File b)\<rparr>)"
      using frag ld h wrote by (simp add: AppendResult_def go_append_nothing [OF empty])
    then show "fst (AppendResult cdc gh result w) = None"
      and "files (snd (AppendResult cdc gh result w)) ?P = Some (File b)"
      by simp_all
  }
  assume h: "files w ?P = None \<or> files w ?P = Some (File [])"
  from ok obtain b' where b': "MarshalIndent cdc \<lparr>Results = None\<rparr> = Inr b'" "b' \<noteq> []"
    unfolding codec_ok_def by (force simp: elems_def)
  obtain tb err w1 where ld: "loadAndMarshalResultsFile cdc gh w = ((\<lparr>Results = None\<rparr>, tb, err), w1)"
    using h rdf
    by (auto simp: loadAndMarshalResultsFile_def os_ReadFile_def os_IsNotExist_def)
  have wrote: "os_WriteFile ?P b' w1 = (None, w1\<lparr>files := (files w)(?P \<mapsto> File b')\<rparr>)"
    using store_writable_after_load [OF wr, of b' cdc] ld by simp
  have "AppendResult cdc gh result w = (None, w1\<lparr>files := (files w)(?P \<mapsto> File b')\<rparr>)"
    using frag ld b' wrote by (simp add: AppendResult_def go_append_nothing [OF empty])
  with b' show "\<exists>b'. MarshalIndent cdc \<lparr>Results = None\<rparr> = Inr b' \<and> b' \<noteq> []
                 \<and> fst (AppendResult cdc gh result w) = None
                 \<and> files (snd (AppendResult cdc gh result w)) ?P = Some (File b')"
    by simp
qed

theorem append_nothing_keeps_written_store_witness:
  "files ex_one_stored ex_store = Some (File ex_fragment1)
   \<and> fst (AppendResult ref_codec ex_gh None ex_one_stored) = None
   \<and> files (snd (AppendResult ref_codec ex_gh None ex_one_stored)) ex_store
       = Some (File ex_fragment1)"
proof -
  have acc: "store_accessible ex_gh ex_one_stored"
    by (simp add: store_accessible_def ex_store_path ex_one_stored_def ex_fresh_def no_fault_def)
  have frag: "readResultFiles ref_codec (resultFilesPaths None) None ex_one_stored = Inr None"
    by (simp add: resultFilesPaths_def)
  have enc: "MarshalIndent ref_codec \<lparr>Results = Some [ex_r1]\<rparr> = Inr ex_fragment1"
    by (simp add: ref_codec_def ref_MarshalIndent_def elems_def ex_plain ex_fragment1_def)
  have rep: "list_all (representable ref_codec) (elems (Results \<lparr>Results = Some [ex_r1]\<rparr>))"
    by (simp add: ref_codec_def elems_def ex_plain)
  have here: "files ex_one_stored (getDataFilePath ex_gh) = Some (File ex_fragment1)"
    by (simp add: ex_one_stored_def ex_store_path)
  from append_nothing_keeps_written_store [OF ref_codec_ok acc frag, of
      "\<lparr>Results = Some [ex_r1]\<rparr>" ex_fragment1] rep enc here
  show ?thesis by (simp add: elems_def ex_store_path)
qed

text \<open>
  C5. Load on a store file that does not exist. The guard of line 124 lets the
  file-not-found error of \<^verbatim>\<open>os.ReadFile\<close> pass, and the bare \<^verbatim>\<open>return\<close> of line 130 then
  hands that same error back beside the empty wrapper: load reports an error where the
  claim promises none.
\<close>

theorem load_missing_store_reports_error:
  "files ex_fresh (getDataFilePath ex_gh) = None
   \<and> loadAndMarshalResultsFile ref_codec ex_gh ex_fresh
       = ((\<lparr>Results = None\<rparr>, [], Some (OsError ErrNotExist)),
          log_write Warn [FStr ''empty data file: '', FStr ex_store] ex_fresh)"
  by (simp add: loadAndMarshalResultsFile_def os_ReadFile_def os_IsNotExist_def ex_store_path
      ex_fresh_def no_fault_def ex_store_def)

text \<open>
  C6. One fragment file that cannot be read or parsed aborts the whole append: the call
  returns the error of a failing fragment (the first one in the order of the files), and
  the world, the store file with it, is as it was; nothing is merged.
\<close>

theorem AppendResult_aborts_on_fragment_failure:
  assumes "p \<in> set (resultFilesPaths result)" and "fragment_error cdc p w \<noteq> None"
  shows "\<exists>q e. q \<in> set (resultFilesPaths result) \<and> fragment_error cdc q w = Some e
            \<and> AppendResult cdc gh result w = (Some e, w)
            \<and> files (snd (AppendResult cdc gh result w)) (getDataFilePath gh)
                = files w (getDataFilePath gh)"
proof -
  from readResultFiles_first_failure [OF assms, of None]
  obtain q e where q: "q \<in> set (resultFilesPaths result)" "fragment_error cdc q w = Some e"
    "readResultFiles cdc (resultFilesPaths result) None w = Inl e"
    by blast
  then have "AppendResult cdc gh result w = (Some e, w)"
    by (simp add: AppendResult_def)
  with q show ?thesis by auto
qed

theorem AppendResult_aborts_on_fragment_failure_witness:
  "AppendResult ref_codec ex_gh
     (fragments [''/tmp/f1.json'', ''/tmp/bad.json'', ''/tmp/f2.json'']) ex_one_stored
   = (Some (JsonError SyntaxError), ex_one_stored)
   \<and> files ex_one_stored ex_store = Some (File ex_fragment1)"
proof -
  let ?result = "fragments [''/tmp/f1.json'', ''/tmp/bad.json'', ''/tmp/f2.json'']"
  have err: "fragment_error ref_codec ''/tmp/f1.json'' ex_one_stored = None"
    "fragment_error ref_codec ''/tmp/bad.json'' ex_one_stored = Some (JsonError SyntaxError)"
    "fragment_error ref_codec ''/tmp/f2.json'' ex_one_stored = None"
    by (simp_all add: fragment_error_def os_ReadFile_def ex_one_stored_def ex_fresh_def
        no_fault_def ex_store_def ref_codec_def ex_decode not_json)
  have paths: "resultFilesPaths ?result = [''/tmp/f1.json'', ''/tmp/bad.json'', ''/tmp/f2.json'']"
    by (simp add: resultFilesPaths_def fragments_def)
  have "''/tmp/bad.json'' \<in> set (resultFilesPaths ?result)"
    by (simp add: paths)
  moreover have "fragment_error ref_codec ''/tmp/bad.json'' ex_one_stored \<noteq> None"
    by (simp add: err)
  ultimately obtain q e where q: "q \<in> set (resultFilesPaths ?result)"
    "fragment_error ref_codec q ex_one_stored = Some e"
    "AppendResult ref_codec ex_gh ?result ex_one_stored = (Some e, ex_one_stored)"
    using AppendResult_aborts_on_fragment_failure [of "''/tmp/bad.json''" ?result ref_codec
        ex_one_stored ex_gh]
    by blast
  from q(1,2) err have "e = JsonError SyntaxError"
    by (auto simp: paths)
  with q(3) show ?thesis
    by (simp add: ex_one_stored_def)
qed

text \<open>
  C7. An empty document is not written and is no error: the save step returns success and
  leaves the world as it is; and a finalize whose sections combine to the empty document
  returns success with the world exactly as the three generators left it, so no final
  report has been created.
\<close>

theorem empty_document_writes_nothing:
  assumes "ShouldGenerateSummary w"
    and "extractServerUrlAndVersion col c w = (Inr (serverUrl, majorVersion), w1)"
    and "InitMarkdownGenerationValues col serverUrl majorVersion w1 = (None, w2)"
    and "combineMarkdownFiles (invokeSections col markdownSections w2) = Inr []"
  shows "saveMarkdownToFileSystem [] w' = (None, w')
     \<and> GenerateSummaryMarkdown col c w = (None, invokeSections col markdownSections w2)"
  using assms by (simp add: saveMarkdownToFileSystem_def GenerateSummaryMarkdown_def)

theorem empty_document_writes_nothing_witness:
  "combineMarkdownFiles (invokeSections ex_col_quiet markdownSections ex_out_empty) = Inr []
   \<and> GenerateSummaryMarkdown ex_col_quiet [] ex_out_empty
       = (None, invokeSections ex_col_quiet markdownSections ex_out_empty)
   \<and> files (snd (GenerateSummaryMarkdown ex_col_quiet [] ex_out_empty)) ex_final_markdown = None"
proof -
  let ?w3 = "sections_done ex_col_quiet ex_out_empty"
  have start: "environ ex_out_empty = ex_environ" "fault ex_out_empty = no_fault"
    "files ex_out_empty ex_build_info_dir = None" "files ex_out_empty = Map.empty"
    by (simp_all add: ex_out_empty_def)
  have w3: "files ?w3 = Map.empty" "fault ?w3 = no_fault" "environ ?w3 = ex_environ"
    using ex_sections_done(2,4,6) [OF start(1,2,3)] start(4) by simp_all
  have "list_all (\<lambda>section. section_readable section ?w3) markdownSections"
    by (simp add: markdownSections_def section_readable_def w3 no_fault_def)
  from combine_readable [OF this]
  have combined: "combineMarkdownFiles (invokeSections ex_col_quiet markdownSections ex_out_empty)
                    = Inr []"
    by (simp add: invokeSections_steps section_content_def w3)
  from empty_document_writes_nothing [OF ex_server(1) [OF start(1)] ex_server(3) ex_server(5) combined]
  have "GenerateSummaryMarkdown ex_col_quiet [] ex_out_empty
          = (None, invokeSections ex_col_quiet markdownSections ex_out_empty)"
    by simp
  with combined w3 show ?thesis
    by (simp add: invokeSections_steps)
qed




text \<open>
  C9, as claimed: a failure while creating the file is overwritten by a successful
  \<^verbatim>\<open>Close\<close>, and the write reports success. When \<^verbatim>\<open>os.Create\<close> fails the file is nil,
  and \<^verbatim>\<open>Close\<close> on a nil file returns the invalid-argument error: here the system
  refuses to create the final report and would close any file without error, and the
  write reports an error, that of the close.
\<close>

theorem refused_create_reports_close_of_nil:
  "fault ex_create_refused ex_final_markdown OpOpen = Some ErrPermission
   \<and> fault ex_create_refused ex_final_markdown OpClose = None
   \<and> saveMarkdownToFileSystem ''# Upload\<newline>'' ex_create_refused
       = (Some (OsError ErrInvalid), ex_create_refused)"
proof -
  have p: "finalMarkdownPath ex_create_refused = ex_final_markdown"
    by (simp add: ex_paths ex_environs)
  have "saveMarkdownToFileSystem ''# Upload\<newline>'' ex_create_refused
          = (Some (OsError ErrInvalid), ex_create_refused)"
    unfolding saveMarkdownToFileSystem_def p
    by (simp add: os_Create_def os_OpenFile_def deferred_Close_def file_Close_def
        ex_create_refused_def)
  then show ?thesis
    by (simp add: ex_create_refused_def)
qed

text \<open>
  C9, amended: once there is something to write, the error the final-report write returns
  is what the deferred \<^verbatim>\<open>Close\<close> returns on the file that \<^verbatim>\<open>os.Create\<close> handed back,
  whatever creating and writing did. So a refused write followed by a clean close is
  reported as success, with the file left empty; a failed create is reported as the
  invalid-argument error of closing a nil file, never as success; and a failing close is
  reported although the document was written in full. The markdown write of the store
  returns the result of its deferred \<^verbatim>\<open>Close\<close> in the same way. (An empty document
  returns success before any file is opened.)
\<close>

theorem write_returns_close_result:
  assumes "finalMarkdown \<noteq> []" and "uploadTree gh = Some t"
  shows "fst (saveMarkdownToFileSystem finalMarkdown w)
           = map_option OsError
               (file_Close (fst (fst (os_Create (finalMarkdownPath w) w))) w)
     \<and> (fault w (finalMarkdownPath w) OpOpen = None \<and> files w (finalMarkdownPath w) = None
          \<and> fault w (finalMarkdownPath w) OpWrite = Some e
          \<and> fault w (finalMarkdownPath w) OpClose = None
        \<longrightarrow> saveMarkdownToFileSystem finalMarkdown w
              = (None, w\<lparr>files := (files w)(finalMarkdownPath w \<mapsto> File [])\<rparr>))
     \<and> (fault w (finalMarkdownPath w) OpOpen = Some e
        \<longrightarrow> saveMarkdownToFileSystem finalMarkdown w = (Some (OsError ErrInvalid), w))
     \<and> (fault w (finalMarkdownPath w) OpOpen = None \<and> files w (finalMarkdownPath w) = None
          \<and> fault w (finalMarkdownPath w) OpWrite = None
          \<and> fault w (finalMarkdownPath w) OpClose = Some e
        \<longrightarrow> saveMarkdownToFileSystem finalMarkdown w
              = (Some (OsError e),
                 w\<lparr>files := (files w)(finalMarkdownPath w \<mapsto> File finalMarkdown)\<rparr>))
     \<and> fst (generateMarkdown gh w')
           = map_option OsError (file_Close (generateMarkdown_file gh w') w')"
proof (intro conjI impI)
  let ?p = "finalMarkdownPath w"
  obtain fh err w1 where cr: "os_Create ?p w = ((fh, err), w1)"
    by (metis surj_pair)
  have f1: "fault w1 = fault w"
    using os_OpenFile_fault [of ?p "[O_RDWR, O_CREATE, O_TRUNC]" w] cr by (simp add: os_Create_def)
  show "fst (saveMarkdownToFileSystem finalMarkdown w)
           = map_option OsError (file_Close (fst (fst (os_Create ?p w))) w)"
  proof (cases err)
    case (Some ce)
    with cr assms(1) f1 show ?thesis
      by (simp add: saveMarkdownToFileSystem_def deferred_Close_returned
          file_Close_fault [of w1 w])
  next
    case None
    obtain werr w2 where wr: "file_Write fh finalMarkdown w1 = (werr, w2)"
      by (cases "file_Write fh finalMarkdown w1")
    have f2: "fault w2 = fault w"
      using file_Write_fault [of fh finalMarkdown w1] wr f1 by simp
    from None cr assms(1) wr f2 show ?thesis
      by (cases werr)
        (simp_all add: saveMarkdownToFileSystem_def deferred_Close_returned
          file_Close_fault [of w2 w])
  qed
next
  assume "fault w (finalMarkdownPath w) OpOpen = None \<and> files w (finalMarkdownPath w) = None
          \<and> fault w (finalMarkdownPath w) OpWrite = Some e
          \<and> fault w (finalMarkdownPath w) OpClose = None"
  with assms(1) show "saveMarkdownToFileSystem finalMarkdown w
              = (None, w\<lparr>files := (files w)(finalMarkdownPath w \<mapsto> File [])\<rparr>)"
    by (simp add: saveMarkdownToFileSystem_def os_Create_def os_OpenFile_def file_Write_def
        file_Close_def deferred_Close_def)
next
  assume "fault w (finalMarkdownPath w) OpOpen = Some e"
  with assms(1) show "saveMarkdownToFileSystem finalMarkdown w = (Some (OsError ErrInvalid), w)"
    by (simp add: saveMarkdownToFileSystem_def os_Create_def os_OpenFile_def file_Close_def
        deferred_Close_def)
next
  assume "fault w (finalMarkdownPath w) OpOpen = None \<and> files w (finalMarkdownPath w) = None
          \<and> fault w (finalMarkdownPath w) OpWrite = None
          \<and> fault w (finalMarkdownPath w) OpClose = Some e"
  with assms(1) show "saveMarkdownToFileSystem finalMarkdown w
              = (Some (OsError e),
                 w\<lparr>files := (files w)(finalMarkdownPath w \<mapsto> File finalMarkdown)\<rparr>)"
    by (simp add: saveMarkdownToFileSystem_def os_Create_def os_OpenFile_def file_Write_def
        file_Close_def deferred_Close_def)
next
  let ?p = "summaryMarkdownPath gh"
  let ?flags = "[O_APPEND, O_CREATE, O_WRONLY]"
  let ?w1 = "log_write Info [FStr ''removing previous file: '', FStr ?p] w'"
  let ?w2 = "snd (os_Remove ?p ?w1)"
  let ?w3 = "log_write Info [FStr ''writing markdown to: '', FStr ?p] ?w2"
  obtain fh err w4 where op: "os_OpenFile ?p ?flags ?w3 = ((fh, err), w4)"
    by (metis surj_pair)
  have f3: "fault ?w3 = fault w'"
    by (simp add: os_Remove_fault)
  have "fst (os_OpenFile ?p ?flags ?w3) = fst (os_OpenFile ?p ?flags (snd (os_Remove ?p w')))"
    by (rule os_OpenFile_handle) (simp_all add: os_Remove_fault os_Remove_log_write)
  moreover from op have "fst (fst (os_OpenFile ?p ?flags ?w3)) = fh"
    by simp
  ultimately have fh: "generateMarkdown_file gh w' = fh"
    by (simp add: generateMarkdown_file_def)
  have f4: "fault w4 = fault w'"
    using os_OpenFile_fault [of ?p ?flags ?w3] op f3 by simp
  show "fst (generateMarkdown gh w')
           = map_option OsError (file_Close (generateMarkdown_file gh w') w')"
  proof (cases err)
    case (Some oe)
    with op f4 show ?thesis
      unfolding fh
      by (simp add: generateMarkdown_def summaryMarkdownPath_def Let_def deferred_Close_returned
          file_Close_fault [of w4 w'])
  next
    case None
    obtain e1 w5 where wr1: "file_Write fh
        (''# '' @ frog @ '' JFrog CLI Github Action Summary '' @ frog @ ''\<newline>'') w4 = (e1, w5)"
      by (metis surj_pair)
    obtain e2 w6 where wr2: "file_Write fh ''## Uploaded artifacts:\<newline>'' w5 = (e2, w6)"
      by (metis surj_pair)
    obtain e3 w7 where wr3: "file_Write fh (''```\<newline>'' @ tree_String t @ ''```'') w6 = (e3, w7)"
      by (metis surj_pair)
    have f7: "fault w7 = fault w'"
      using file_Write_fault [of fh _ w4] file_Write_fault [of fh _ w5]
        file_Write_fault [of fh _ w6] wr1 wr2 wr3 f4
      by (metis snd_conv)
    have "generateMarkdown gh w' = deferred_Close fh (map_option OsError e3, w7)"
      using None op wr1 wr2 wr3 assms(2)
      by (simp add: generateMarkdown_def summaryMarkdownPath_def Let_def)
    then show ?thesis
      unfolding fh
      by (cases e3) (simp_all add: deferred_Close_returned file_Close_fault [OF f7])
  qed
qed

theorem write_returns_close_result_witness:
  "saveMarkdownToFileSystem ''# Upload\<newline>'' ex_write_refused
     = (None, ex_write_refused\<lparr>files := [ex_final_markdown \<mapsto> File []]\<rparr>)
   \<and> saveMarkdownToFileSystem ''# Upload\<newline>'' ex_close_fails
       = (Some (OsError ErrIO),
          ex_close_fails\<lparr>files := [ex_final_markdown \<mapsto> File ''# Upload\<newline>'']\<rparr>)
   \<and> fst (generateMarkdown ex_gh_tree ex_md_write_refused) = None
   \<and> files (snd (generateMarkdown ex_gh_tree ex_md_write_refused)) ex_summary_md
       = Some (File [])"
proof -
  have tree: "uploadTree ex_gh_tree = Some (AddFile ''repo/a/b/x.txt'' NewFileTree)"
    by (simp add: ex_gh_tree_def)
  have ne: "''# Upload\<newline>'' \<noteq> []" by simp
  note close_result = write_returns_close_result [OF ne tree]
  have p: "finalMarkdownPath ex_write_refused = ex_final_markdown"
    "finalMarkdownPath ex_close_fails = ex_final_markdown"
    by (simp_all add: ex_paths ex_environs)
  have refused: "fault ex_write_refused ex_final_markdown OpOpen = None
      \<and> files ex_write_refused ex_final_markdown = None
      \<and> fault ex_write_refused ex_final_markdown OpWrite = Some ErrIO
      \<and> fault ex_write_refused ex_final_markdown OpClose = None"
    by (simp add: ex_write_refused_def ex_out_empty_def)
  have fails: "fault ex_close_fails ex_final_markdown OpOpen = None
      \<and> files ex_close_fails ex_final_markdown = None
      \<and> fault ex_close_fails ex_final_markdown OpWrite = None
      \<and> fault ex_close_fails ex_final_markdown OpClose = Some ErrIO"
    by (simp add: ex_close_fails_def ex_out_empty_def)
  have i1: "saveMarkdownToFileSystem ''# Upload\<newline>'' ex_write_refused
     = (None, ex_write_refused\<lparr>files := (files ex_write_refused)(ex_final_markdown \<mapsto> File [])\<rparr>)"
    using close_result [of ex_write_refused ErrIO ex_md_write_refused] refused
    unfolding p by blast
  have s1: "saveMarkdownToFileSystem ''# Upload\<newline>'' ex_write_refused
     = (None, ex_write_refused\<lparr>files := [ex_final_markdown \<mapsto> File []]\<rparr>)"
    unfolding i1 by (simp add: ex_write_refused_def ex_out_empty_def)
  have i2: "saveMarkdownToFileSystem ''# Upload\<newline>'' ex_close_fails
       = (Some (OsError ErrIO),
          ex_close_fails\<lparr>files := (files ex_close_fails)
                                      (ex_final_markdown \<mapsto> File ''# Upload\<newline>'')\<rparr>)"
    using close_result [of ex_close_fails ErrIO ex_md_write_refused] fails
    unfolding p by blast
  have s2: "saveMarkdownToFileSystem ''# Upload\<newline>'' ex_close_fails
       = (Some (OsError ErrIO),
          ex_close_fails\<lparr>files := [ex_final_markdown \<mapsto> File ''# Upload\<newline>'']\<rparr>)"
    unfolding i2 by (simp add: ex_close_fails_def ex_out_empty_def)
  have mp: "summaryMarkdownPath ex_gh_tree = ex_summary_md"
    by (simp add: summaryMarkdownPath_def ex_gh_tree_def ex_gh_def newGithubActionSummary_def
        homeDir_def path_Join_def ex_summary_md_def)
  have handle: "generateMarkdown_file ex_gh_tree ex_md_write_refused = Some ex_summary_md"
    unfolding generateMarkdown_file_def mp
    by (simp add: os_Remove_def os_OpenFile_def ex_md_write_refused_def ex_out_empty_def)
  have "fst (generateMarkdown ex_gh_tree ex_md_write_refused)
          = map_option OsError (file_Close (Some ex_summary_md) ex_md_write_refused)"
    using close_result [of ex_close_fails ErrIO ex_md_write_refused]
    unfolding handle by blast
  then have s3: "fst (generateMarkdown ex_gh_tree ex_md_write_refused) = None"
    by (simp add: file_Close_def ex_md_write_refused_def ex_summary_md_def)
  have s4: "files (snd (generateMarkdown ex_gh_tree ex_md_write_refused)) ex_summary_md
       = Some (File [])"
    by (simp add: generateMarkdown_def Let_def mp [unfolded summaryMarkdownPath_def] tree
        os_Remove_def os_OpenFile_def file_Write_def deferred_Close_def file_Close_def
        log_write_def ex_md_write_refused_def ex_out_empty_def)
  from s1 s2 s3 s4 show ?thesis by simp
qed

text \<open>
  C10. Inserting a path a second time changes nothing: the tree is the same tree, node
  for node, also when other paths were inserted in between, and so what it renders is the
  same; and the empty tree renders as the empty string. The tree is the one modelled from
  the spec.
\<close>

theorem AddFile_idempotent:
  "AddFile p (AddFile p t) = AddFile p t
   \<and> AddFile p (AddFile q (AddFile p t)) = AddFile q (AddFile p t)
   \<and> tree_String (AddFile p (AddFile p t)) = tree_String (AddFile p t)
   \<and> tree_String NewFileTree = []"
  by (simp add: AddFile_def tree_String_def NewFileTree_def addSegments_twice
      addSegments_present)

end
